theory Spec2Isabelle
  imports Complex_Main
begin

section \<open>Numbers of the program\<close>

text \<open>
  Every number of \<^verbatim>\<open>StockSentimentAnalysis.py\<close> is a 64-bit float held in a pandas
  Series or a numpy array. The embedding is the exact one: a finite float is a \<^typ>\<open>real\<close>
  and no operation rounds or overflows. Two more kinds of value are kept, since the code
  depends on them:
  \<^item> a missing entry of a Series (pandas prints it \<^verbatim>\<open>NaN\<close>; \<^verbatim>\<open>rolling\<close>, \<^verbatim>\<open>diff\<close> and
    \<^verbatim>\<open>dropna\<close> treat it as absent) in a column whose present entries are all finite is
    \<open>None\<close> of \<^typ>\<open>real option\<close>;
  \<^item> the result of a float division, which numpy computes by the IEEE rules also when the
    divisor is zero, is a \<open>fval\<close>: finite, plus or minus infinity, or NaN. Zero has no
    sign here.
  The closing prices that the data provider returns are taken to be finite.
\<close>

datatype fval = Fin real | PInf | NInf | NaN

fun of_entry :: "real option \<Rightarrow> fval" where
  "of_entry None = NaN"
| "of_entry (Some x) = Fin x"

fun fneg :: "fval \<Rightarrow> fval" where
  "fneg (Fin x) = Fin (- x)"
| "fneg PInf = NInf"
| "fneg NInf = PInf"
| "fneg NaN = NaN"

fun fadd :: "fval \<Rightarrow> fval \<Rightarrow> fval" where
  "fadd NaN _ = NaN"
| "fadd _ NaN = NaN"
| "fadd (Fin x) (Fin y) = Fin (x + y)"
| "fadd PInf NInf = NaN"
| "fadd NInf PInf = NaN"
| "fadd PInf _ = PInf"
| "fadd NInf _ = NInf"
| "fadd (Fin x) PInf = PInf"
| "fadd (Fin x) NInf = NInf"

definition fsub :: "fval \<Rightarrow> fval \<Rightarrow> fval" where
  "fsub a b = fadd a (fneg b)"

text \<open>Division: a finite nonzero number over zero is an infinity, zero over zero is NaN,
  a finite number over an infinity is zero.\<close>

fun fdiv :: "fval \<Rightarrow> fval \<Rightarrow> fval" where
  "fdiv NaN _ = NaN"
| "fdiv _ NaN = NaN"
| "fdiv (Fin x) (Fin y) =
     (if y \<noteq> 0 then Fin (x / y)
      else if 0 < x then PInf else if x < 0 then NInf else NaN)"
| "fdiv (Fin x) PInf = Fin 0"
| "fdiv (Fin x) NInf = Fin 0"
| "fdiv PInf (Fin y) = (if 0 \<le> y then PInf else NInf)"
| "fdiv NInf (Fin y) = (if 0 \<le> y then NInf else PInf)"
| "fdiv PInf _ = NaN"
| "fdiv NInf _ = NaN"

text \<open>The comparison \<^verbatim>\<open>a > b\<close>: false whenever an operand is NaN.\<close>

fun fgt :: "fval \<Rightarrow> fval \<Rightarrow> bool" where
  "fgt NaN _ = False"
| "fgt _ NaN = False"
| "fgt (Fin x) (Fin y) = (y < x)"
| "fgt PInf PInf = False"
| "fgt PInf _ = True"
| "fgt NInf _ = False"
| "fgt (Fin x) PInf = False"
| "fgt (Fin x) NInf = True"

fun entry_gt :: "real option \<Rightarrow> real \<Rightarrow> bool" where
  "entry_gt None _ = False"
| "entry_gt (Some x) y = (y < x)"

fun entry_lt :: "real option \<Rightarrow> real \<Rightarrow> bool" where
  "entry_lt None _ = False"
| "entry_lt (Some x) y = (x < y)"

section \<open>pandas Series operations used by the indicators\<close>

text \<open>\<^verbatim>\<open>Series.diff()\<close>: the first entry is missing, each later one is the entry minus
  its predecessor (missing when either is).\<close>

fun diff_from :: "real option \<Rightarrow> real option list \<Rightarrow> real option list" where
  "diff_from p [] = []"
| "diff_from p (x # xs) =
     (case (p, x) of (Some a, Some b) \<Rightarrow> Some (b - a) | _ \<Rightarrow> None) # diff_from x xs"

definition diff :: "real option list \<Rightarrow> real option list" where
  "diff xs = diff_from None xs"

text \<open>\<^verbatim>\<open>Series.where(cond, other)\<close> keeps the entry where the condition holds and puts
  \<^verbatim>\<open>other\<close> elsewhere.\<close>

definition where_else :: "('a \<Rightarrow> bool) \<Rightarrow> 'a \<Rightarrow> 'a list \<Rightarrow> 'a list" where
  "where_else cond other xs = map (\<lambda>x. if cond x then x else other) xs"

text \<open>\<^verbatim>\<open>Series.rolling(window=w)\<close> with the default \<^verbatim>\<open>min_periods\<close> (the window size):
  the window of row \<open>i\<close> is the \<open>w\<close> entries ending at \<open>i\<close>; the statistic is missing
  for a row with fewer than \<open>w\<close> entries up to it and for a window with a missing entry.\<close>

definition window_at :: "nat \<Rightarrow> 'a list \<Rightarrow> nat \<Rightarrow> 'a list" where
  "window_at w xs i = take w (drop (Suc i - w) xs)"

definition rolling :: "nat \<Rightarrow> (real list \<Rightarrow> real option) \<Rightarrow> real option list \<Rightarrow> real option list" where
  "rolling w stat xs =
     map (\<lambda>i. if Suc i < w then None else Option.bind (those (window_at w xs i)) stat)
       [0..<length xs]"

definition mean :: "real list \<Rightarrow> real option" where
  "mean xs = (if xs = [] then None else Some (sum_list xs / real (length xs)))"

text \<open>\<^verbatim>\<open>std()\<close> of a window is the sample standard deviation (one delta degree of freedom),
  missing for fewer than two observations.\<close>

definition variance :: "real list \<Rightarrow> real" where
  "variance xs =
     (let m = sum_list xs / real (length xs)
      in sum_list (map (\<lambda>x. (x - m)\<^sup>2) xs) / (real (length xs) - 1))"

definition std :: "real list \<Rightarrow> real option" where
  "std xs = (if length xs < 2 then None else Some (sqrt (variance xs)))"

text \<open>\<^verbatim>\<open>Series.ewm(span=s, adjust=False).mean()\<close> on a series with no missing entry:
  with \<open>\<alpha> = 2 / (s + 1)\<close>, the first output is the first input and each later output is
  \<open>(1 - \<alpha>)\<close> times the previous output plus \<open>\<alpha>\<close> times the input.\<close>

fun ewm_from :: "real \<Rightarrow> real \<Rightarrow> real list \<Rightarrow> real list" where
  "ewm_from a y [] = []"
| "ewm_from a y (x # xs) = ((1 - a) * y + a * x) # ewm_from a ((1 - a) * y + a * x) xs"

definition ewm_mean :: "nat \<Rightarrow> real list \<Rightarrow> real list" where
  "ewm_mean spn xs =
     (case xs of [] \<Rightarrow> [] | x # t \<Rightarrow> x # ewm_from (2 / (real spn + 1)) x t)"

text \<open>\<^verbatim>\<open>Series.pct_change()\<close>: each entry over its predecessor, minus one; the first
  entry is NaN.\<close>

definition pct_change :: "real list \<Rightarrow> fval list" where
  "pct_change xs =
     (case xs of [] \<Rightarrow> []
      | _ # t \<Rightarrow> NaN # map2 (\<lambda>prev cur. fsub (fdiv (Fin cur) (Fin prev)) (Fin 1)) xs t)"

section \<open>The price table and the technical indicators\<close>

record price_bar =
  Date :: nat
  Open :: real
  High :: real
  Low :: real
  Close :: real
  Volume :: real

definition close_column :: "price_bar list \<Rightarrow> real option list" where
  "close_column data = map (\<lambda>b. Some (Close b)) data"

definition sma :: "price_bar list \<Rightarrow> nat \<Rightarrow> real option list" where
  "sma data window = rolling window mean (close_column data)"

text \<open>The local variables of \<^verbatim>\<open>rsi\<close>, one definition each.\<close>

definition delta :: "price_bar list \<Rightarrow> real option list" where
  "delta data = diff (close_column data)"

definition gain :: "price_bar list \<Rightarrow> real option list" where
  "gain data = where_else (\<lambda>d. entry_gt d 0) (Some 0) (delta data)"

definition loss :: "price_bar list \<Rightarrow> real option list" where
  "loss data = map (map_option uminus) (where_else (\<lambda>d. entry_lt d 0) (Some 0) (delta data))"

definition avg_gain :: "price_bar list \<Rightarrow> nat \<Rightarrow> real option list" where
  "avg_gain data window = rolling window mean (gain data)"

definition avg_loss :: "price_bar list \<Rightarrow> nat \<Rightarrow> real option list" where
  "avg_loss data window = rolling window mean (loss data)"

definition rs :: "price_bar list \<Rightarrow> nat \<Rightarrow> fval list" where
  "rs data window =
     map2 (\<lambda>g l. fdiv (of_entry g) (of_entry l)) (avg_gain data window) (avg_loss data window)"

definition rsi :: "price_bar list \<Rightarrow> nat \<Rightarrow> fval list" where
  "rsi data window =
     map (\<lambda>r. fsub (Fin 100) (fdiv (Fin 100) (fadd (Fin 1) r))) (rs data window)"

fun plus_entry :: "real option \<Rightarrow> real option \<Rightarrow> real option" where
  "plus_entry (Some a) (Some b) = Some (a + b)"
| "plus_entry _ _ = None"

fun minus_entry :: "real option \<Rightarrow> real option \<Rightarrow> real option" where
  "minus_entry (Some a) (Some b) = Some (a - b)"
| "minus_entry _ _ = None"

definition bollinger_bands :: "price_bar list \<Rightarrow> nat \<Rightarrow> real option list \<times> real option list" where
  "bollinger_bands data window =
     (let sma_col = rolling window mean (close_column data);
          std_dev = rolling window std (close_column data);
          upper_band = map2 plus_entry sma_col (map (map_option (\<lambda>s. 2 * s)) std_dev);
          lower_band = map2 minus_entry sma_col (map (map_option (\<lambda>s. 2 * s)) std_dev)
      in (upper_band, lower_band))"

definition macd :: "price_bar list \<Rightarrow> real list \<times> real list" where
  "macd data =
     (let exp12 = ewm_mean 12 (map Close data);
          exp26 = ewm_mean 26 (map Close data);
          macd_col = map2 (\<lambda>a b. a - b) exp12 exp26;
          signal_line = ewm_mean 9 macd_col
      in (macd_col, signal_line))"

section \<open>Preprocessing\<close>

text \<open>A row of the table that \<^verbatim>\<open>preprocess_data\<close> builds: the price bar and the columns
  added to it.\<close>

record derived_row = price_bar +
  Returns :: fval
  Direction :: int
  SMA :: "real option"
  RSI :: fval
  BB_Upper :: "real option"
  BB_Lower :: "real option"
  MACD :: real
  Signal_Line :: real

text \<open>\<^verbatim>\<open>DataFrame.dropna()\<close> removes every row with a missing or NaN entry in some column.
  An infinity is not missing.\<close>

definition has_na :: "'a derived_row_scheme \<Rightarrow> bool" where
  "has_na r \<longleftrightarrow>
     Returns r = NaN \<or> SMA r = None \<or> RSI r = NaN \<or> BB_Upper r = None \<or> BB_Lower r = None"

definition dropna :: "'a derived_row_scheme list \<Rightarrow> 'a derived_row_scheme list" where
  "dropna rows = filter (\<lambda>r. \<not> has_na r) rows"

text \<open>The table before \<^verbatim>\<open>dropna\<close>: lines 47 to 52 of \<^verbatim>\<open>preprocess_data\<close>, each column
  aligned with the rows of the downloaded data.\<close>

definition add_columns :: "price_bar list \<Rightarrow> derived_row list" where
  "add_columns data =
     (let returns = pct_change (map Close data);
          direction = map (\<lambda>r. if fgt r (Fin 0) then 1 else - 1) returns;
          sma_col = sma data 14;
          rsi_col = rsi data 14;
          bb = bollinger_bands data 14;
          md = macd data
      in map (\<lambda>i.
            \<lparr>Date = Date (data ! i), Open = Open (data ! i), High = High (data ! i),
             Low = Low (data ! i), Close = Close (data ! i), Volume = Volume (data ! i),
             Returns = returns ! i, Direction = direction ! i, SMA = sma_col ! i,
             RSI = rsi_col ! i, BB_Upper = fst bb ! i, BB_Lower = snd bb ! i,
             MACD = fst md ! i, Signal_Line = snd md ! i\<rparr>)
           [0..<length data])"

text \<open>\<^verbatim>\<open>preprocess_data\<close>; the argument is the table that \<^verbatim>\<open>yf.download\<close> returned for
  the ticker and the date range.\<close>

definition preprocess_data :: "price_bar list \<Rightarrow> derived_row list" where
  "preprocess_data data = dropna (add_columns data)"

section \<open>Exceptions\<close>

text \<open>The exceptions that the embedded code can raise. A computation that may raise has a
  result of type \<open>py_exc + 'a\<close>; \<open>and_then\<close> runs the next step on a value and passes an
  exception on; \<open>all_ok\<close> runs a list of computations in order and stops at the first
  exception.\<close>

datatype py_exc = NameError string | TypeError | ValueError | KeyError string | IndexError

definition and_then :: "py_exc + 'a \<Rightarrow> ('a \<Rightarrow> py_exc + 'b) \<Rightarrow> py_exc + 'b" where
  "and_then m f = (case m of Inl e \<Rightarrow> Inl e | Inr x \<Rightarrow> f x)"

fun all_ok :: "(py_exc + 'a) list \<Rightarrow> py_exc + 'a list" where
  "all_ok [] = Inr []"
| "all_ok (m # ms) = and_then m (\<lambda>x. and_then (all_ok ms) (\<lambda>xs. Inr (x # xs)))"

section \<open>Feature tables\<close>

text \<open>A DataFrame whose columns are chosen by name: the column names in order and the
  rows. \<^verbatim>\<open>df[c]\<close> is \<open>column df c\<close> and raises \<^verbatim>\<open>KeyError\<close> for an unknown name;
  \<^verbatim>\<open>.iloc[-1]\<close> is the last entry and raises \<^verbatim>\<open>IndexError\<close> on an empty column.\<close>

record 'a frame =
  columns :: "string list"
  rows :: "'a list list"

fun position :: "string \<Rightarrow> string list \<Rightarrow> nat option" where
  "position c [] = None"
| "position c (d # ds) = (if c = d then Some 0 else map_option Suc (position c ds))"

definition column :: "'a frame \<Rightarrow> string \<Rightarrow> py_exc + 'a list" where
  "column df c =
     (case position c (columns df) of
        None \<Rightarrow> Inl (KeyError c)
      | Some j \<Rightarrow> Inr (map (\<lambda>r. r ! j) (rows df)))"

definition iloc_last :: "'a list \<Rightarrow> py_exc + 'a" where
  "iloc_last xs = (if xs = [] then Inl IndexError else Inr (last xs))"

text \<open>Line 85: the inner join of the price table with the news table on \<^verbatim>\<open>Date\<close>. Each
  price row is paired with every news row of the same date, in the order of the price
  rows; a row without a partner is left out.\<close>

record merged_row = derived_row +
  Headline :: string

definition merge_on_date :: "derived_row list \<Rightarrow> (nat \<times> string) list \<Rightarrow> merged_row list" where
  "merge_on_date stock news =
     concat (map (\<lambda>r. map (\<lambda>n. derived_row.extend r (merged_row.fields (snd n)))
                         (filter (\<lambda>n. fst n = Date r) news)) stock)"

text \<open>\<^verbatim>\<open>prepare_features\<close>: the score of each headline (\<open>polarity\<close> stands for the compound
  score of the sentiment analyzer) and the seven columns selected on line 59, in that
  order.\<close>

definition feature_names :: "string list" where
  "feature_names = [''Sentiment'', ''SMA'', ''RSI'', ''BB_Upper'', ''BB_Lower'', ''MACD'', ''Signal_Line'']"

definition prepare_features :: "merged_row list \<Rightarrow> (string \<Rightarrow> real) \<Rightarrow> fval frame" where
  "prepare_features data polarity =
     \<lparr>columns = feature_names,
      rows = map (\<lambda>r. [Fin (polarity (Headline r)), of_entry (SMA r), RSI r,
                        of_entry (BB_Upper r), of_entry (BB_Lower r),
                        Fin (MACD r), Fin (Signal_Line r)]) data\<rparr>"

section \<open>Min-max scaling\<close>

text \<open>
  \<^verbatim>\<open>sklearn.preprocessing.MinMaxScaler\<close> with its default range \<open>[0, 1]\<close>. Fitting keeps,
  for each column, the least and the greatest entry, the factor
  \<open>1 / (max - min)\<close> (with the divisor replaced by one when the column is constant) and
  the offset \<open>0 - min * factor\<close>; transforming multiplies by the factor and adds the
  offset. An empty table and a row of the wrong width raise \<^verbatim>\<open>ValueError\<close>, and so does an
  infinite entry. (A NaN entry is let through by the library; no table of this program
  holds one after \<^verbatim>\<open>dropna\<close>, and the embedding rejects it with the infinities.)
\<close>

record scaler =
  data_min :: "real list"
  data_max :: "real list"
  scale_factor :: "real list"
  offset :: "real list"

fun finite_entry :: "fval \<Rightarrow> py_exc + real" where
  "finite_entry (Fin x) = Inr x"
| "finite_entry _ = Inl ValueError"

definition check_array :: "fval list list \<Rightarrow> py_exc + real list list" where
  "check_array X =
     (if X = [] then Inl ValueError else all_ok (map (\<lambda>r. all_ok (map finite_entry r)) X))"

definition handle_zeros_in_scale :: "real \<Rightarrow> real" where
  "handle_zeros_in_scale d = (if d = 0 then 1 else d)"

text \<open>The scaler fitted to a table \<open>X\<close> of \<open>n\<close> columns.\<close>

definition fitted :: "real list list \<Rightarrow> nat \<Rightarrow> scaler" where
  "fitted X n =
     (let lo = map (\<lambda>j. Min (set (map (\<lambda>r. r ! j) X))) [0..<n];
          hi = map (\<lambda>j. Max (set (map (\<lambda>r. r ! j) X))) [0..<n];
          sc = map2 (\<lambda>l h. 1 / handle_zeros_in_scale (h - l)) lo hi;
          off = map2 (\<lambda>l s. 0 - l * s) lo sc
      in \<lparr>data_min = lo, data_max = hi, scale_factor = sc, offset = off\<rparr>)"

definition fit :: "real list list \<Rightarrow> py_exc + scaler" where
  "fit X =
     (if X = [] \<or> (\<exists>r \<in> set X. length r \<noteq> length (hd X)) then Inl ValueError
      else Inr (fitted X (length (hd X))))"

definition scaled_row :: "scaler \<Rightarrow> real list \<Rightarrow> real list" where
  "scaled_row s r = map2 (\<lambda>x (sc, off). x * sc + off) r (zip (scale_factor s) (offset s))"

definition transform_row :: "scaler \<Rightarrow> real list \<Rightarrow> py_exc + real list" where
  "transform_row s r =
     (if length r \<noteq> length (scale_factor s) then Inl ValueError else Inr (scaled_row s r))"

definition transform :: "scaler \<Rightarrow> real list list \<Rightarrow> py_exc + real list list" where
  "transform s X = (if X = [] then Inl ValueError else all_ok (map (transform_row s) X))"

definition fit_transform :: "fval list list \<Rightarrow> py_exc + scaler \<times> real list list" where
  "fit_transform X =
     and_then (check_array X) (\<lambda>A.
     and_then (fit A) (\<lambda>s.
     and_then (transform s A) (\<lambda>B. Inr (s, B))))"

section \<open>Splitting, training and the program\<close>

text \<open>
  \<^verbatim>\<open>train_test_split(X, y, test_size=0.2, random_state=42)\<close> shuffles the row numbers and
  cuts them in two. Which rows go where is the library's choice: it is the argument
  \<open>split\<close>, the training row numbers and the test row numbers, each in the order the
  library puts them.
\<close>

definition take_rows :: "'a list \<Rightarrow> nat list \<Rightarrow> 'a list" where
  "take_rows xs idx = map (\<lambda>i. xs ! i) idx"

definition valid_split :: "nat \<Rightarrow> nat list \<times> nat list \<Rightarrow> bool" where
  "valid_split n split \<longleftrightarrow>
     distinct (fst split @ snd split) \<and> set (fst split @ snd split) = {0..<n}
     \<and> fst split \<noteq> [] \<and> snd split \<noteq> []"

text \<open>The names that \<^verbatim>\<open>main\<close> has bound when its last line has run. The source drops
  them when \<^verbatim>\<open>main\<close> returns; the loop of lines 112 to 125 reads them.\<close>

record main_locals =
  the_scaler :: scaler
  X_train :: "real frame"
  X_test :: "real frame"
  y_train :: "int list"
  y_test :: "int list"

text \<open>Lines 90 to 98 of \<^verbatim>\<open>main\<close>: scale the feature table, rebuild it under the same
  column names, split.\<close>

definition scale_and_split ::
  "fval frame \<Rightarrow> int list \<Rightarrow> nat list \<times> nat list \<Rightarrow> py_exc + main_locals" where
  "scale_and_split X0 y split =
     and_then (fit_transform (rows X0)) (\<lambda>(s, X_scaled).
       let X = \<lparr>columns = columns X0, rows = X_scaled\<rparr>
       in Inr \<lparr>the_scaler = s,
               X_train = \<lparr>columns = columns X, rows = take_rows (rows X) (fst split)\<rparr>,
               X_test = \<lparr>columns = columns X, rows = take_rows (rows X) (snd split)\<rparr>,
               y_train = take_rows y (fst split),
               y_test = take_rows y (snd split)\<rparr>)"

text \<open>\<^verbatim>\<open>main\<close>, lines 71 to 98, with the downloaded table, the sentiment analyzer and the
  choice of the split as arguments. Every date of the news table carries the same
  headline.\<close>

definition main ::
  "price_bar list \<Rightarrow> (string \<Rightarrow> real) \<Rightarrow> nat list \<times> nat list \<Rightarrow> py_exc + main_locals" where
  "main download polarity split =
     (let stock_data = preprocess_data download;
          news_data = map (\<lambda>r. (Date r, ''Sample headline'')) stock_data;
          merged_data = dropna (merge_on_date stock_data news_data);
          X = prepare_features merged_data polarity;
          y = map Direction merged_data
      in scale_and_split X y split)"

text \<open>\<^verbatim>\<open>train_and_evaluate_model\<close>: the grid search is the library's; \<open>search\<close> stands for
  it and returns the prediction function of the best estimator, refitted on the training
  rows.\<close>

definition accuracy_score :: "int list \<Rightarrow> int list \<Rightarrow> fval" where
  "accuracy_score y_true y_pred =
     fdiv (Fin (real (length (filter (\<lambda>(a, b). a = b) (zip y_true y_pred)))))
          (Fin (real (length y_true)))"

definition train_and_evaluate_model ::
  "(real list list \<Rightarrow> int list \<Rightarrow> real list \<Rightarrow> int) \<Rightarrow>
   real list list \<Rightarrow> int list \<Rightarrow> real list list \<Rightarrow> int list \<Rightarrow>
   fval \<times> int list \<times> (real list \<Rightarrow> int)" where
  "train_and_evaluate_model search Xtr ytr Xte yte =
     (let best_model = search Xtr ytr;
          y_pred = map best_model Xte;
          accuracy = accuracy_score yte y_pred
      in (accuracy, y_pred, best_model))"

text \<open>The body of the loop, lines 113 to 124, for one model, as a function of the names
  it reads. The result holds what the body prints and the input it gave the model.\<close>

record report =
  accuracy :: fval
  input_vector :: "real list"
  scaled_input :: "real list list"
  prediction :: "int list"
  movement :: string

definition loop_body ::
  "main_locals \<Rightarrow> (string \<Rightarrow> real) \<Rightarrow> string \<Rightarrow>
   (real list list \<Rightarrow> int list \<Rightarrow> real list \<Rightarrow> int) \<Rightarrow> py_exc + report" where
  "loop_body L polarity news_headline search =
     (case train_and_evaluate_model search (rows (X_train L)) (y_train L)
             (rows (X_test L)) (y_test L) of
        (acc, y_pred, best_model) \<Rightarrow>
          (let sentiment = polarity news_headline
           in and_then (all_ok (map (\<lambda>c. and_then (column (X_test L) c) iloc_last)
                     [''SMA'', ''RSI'', ''BB_Upper'', ''BB_Lower'', ''MACD'', ''Signal_Line''])) (\<lambda>latest.
              let input = sentiment # latest
              in and_then (transform (the_scaler L) [input]) (\<lambda>scaled.
                 let pred = map best_model scaled
                 in Inr \<lparr>accuracy = acc, input_vector = input, scaled_input = scaled,
                         prediction = pred,
                         movement = (if hd pred > 0 then ''up'' else ''down'')\<rparr>))))"

text \<open>The last entry of each of the six indicator columns of a table whose columns are
  the seven features in order: what \<^verbatim>\<open>X_test['SMA'].iloc[-1]\<close> and the five reads after it
  return.\<close>

definition latest_of :: "real frame \<Rightarrow> real list" where
  "latest_of T = map (\<lambda>j. last (map (\<lambda>r. r ! j) (rows T))) [1, 2, 3, 4, 5, 6]"

section \<open>Names and scopes of the module\<close>

text \<open>
  What the module does with names, statement by statement. The right-hand side of a
  statement is the names it reads, in the order Python evaluates them; what the library
  objects compute from the values is of no concern here. A call of a function defined
  in the module runs the body in a fresh local scope holding the parameters. A name is
  looked up in the local scope, then among the globals of the module, then among the
  builtins. An assignment in a function body binds a local name (the source has no
  \<^verbatim>\<open>global\<close> statement), one at module level binds a global name.
  \<^item> \<open>Assign targets rhs subs\<close>: evaluate \<open>rhs\<close>, read the objects \<open>subs\<close> whose items
    are assigned (\<^verbatim>\<open>data['SMA'] = ...\<close> reads \<^verbatim>\<open>data\<close>), bind the names \<open>targets\<close>. With
    no target and no item it is an expression statement.
  \<^item> \<open>CallOf f args\<close>: the call \<^verbatim>\<open>f(args)\<close>, each argument a name or a literal.
  \<^item> \<open>For targets n body\<close>: \<^verbatim>\<open>for targets in n.items(): body\<close>.
  \<^item> \<open>IfMain body\<close>: \<^verbatim>\<open>if __name__ == "__main__": body\<close>; the flag \<open>script\<close> of \<open>run\<close>
    says whether the file runs as a script or is imported.
  Calls nest, so \<open>run\<close> takes fuel, one unit for each call in progress of a function of the
  module.
\<close>

datatype arg = Name string | Literal

datatype rhs =
    Reads "string list"
  | CallOf string "arg list"
  | DictOf "string list list"

datatype stmt =
    Import "string list"
  | Def string "string list" "stmt list"
  | Assign "string list" rhs "string list"
  | Return "string list"
  | For "string list" string "stmt list"
  | IfMain "stmt list"

datatype pyval = Opaque | Fun "string list" "stmt list" | Coll nat

datatype 'a outcome = Done 'a | Raised py_exc | NoFuel

type_synonym env = "(string \<times> pyval) list"

record scope =
  globals :: env
  locals :: "env option"

definition builtins :: "string list" where
  "builtins = [''print'', ''input'', ''len'', ''__name__'']"

definition lookup :: "scope \<Rightarrow> string \<Rightarrow> pyval outcome" where
  "lookup sc n =
     (case (case locals sc of None \<Rightarrow> None | Some l \<Rightarrow> map_of l n) of
        Some v \<Rightarrow> Done v
      | None \<Rightarrow>
          (case map_of (globals sc) n of
             Some v \<Rightarrow> Done v
           | None \<Rightarrow> if n \<in> set builtins then Done Opaque else Raised (NameError n)))"

fun lookup_all :: "scope \<Rightarrow> string list \<Rightarrow> pyval list outcome" where
  "lookup_all sc [] = Done []"
| "lookup_all sc (n # ns) =
     (case lookup sc n of
        Done v \<Rightarrow>
          (case lookup_all sc ns of
             Done vs \<Rightarrow> Done (v # vs) | Raised e \<Rightarrow> Raised e | NoFuel \<Rightarrow> NoFuel)
      | Raised e \<Rightarrow> Raised e
      | NoFuel \<Rightarrow> NoFuel)"

fun lookup_args :: "scope \<Rightarrow> arg list \<Rightarrow> pyval list outcome" where
  "lookup_args sc [] = Done []"
| "lookup_args sc (Literal # as) =
     (case lookup_args sc as of
        Done vs \<Rightarrow> Done (Opaque # vs) | Raised e \<Rightarrow> Raised e | NoFuel \<Rightarrow> NoFuel)"
| "lookup_args sc (Name n # as) =
     (case lookup sc n of
        Done v \<Rightarrow>
          (case lookup_args sc as of
             Done vs \<Rightarrow> Done (v # vs) | Raised e \<Rightarrow> Raised e | NoFuel \<Rightarrow> NoFuel)
      | Raised e \<Rightarrow> Raised e
      | NoFuel \<Rightarrow> NoFuel)"

definition bind_name :: "string \<Rightarrow> pyval \<Rightarrow> scope \<Rightarrow> scope" where
  "bind_name n v sc =
     (case locals sc of
        None \<Rightarrow> sc\<lparr>globals := (n, v) # globals sc\<rparr>
      | Some l \<Rightarrow> sc\<lparr>locals := Some ((n, v) # l)\<rparr>)"

definition bind_names :: "string list \<Rightarrow> scope \<Rightarrow> scope" where
  "bind_names ns sc = fold (\<lambda>n. bind_name n Opaque) ns sc"

definition assign :: "string list \<Rightarrow> pyval \<Rightarrow> string list \<Rightarrow> scope \<Rightarrow> (scope \<times> bool) outcome" where
  "assign targets v subs sc =
     (case lookup_all sc subs of
        Raised e \<Rightarrow> Raised e
      | NoFuel \<Rightarrow> NoFuel
      | Done _ \<Rightarrow>
          Done (case targets of [t] \<Rightarrow> bind_name t v sc | _ \<Rightarrow> bind_names targets sc, False))"

fun weight :: "stmt \<Rightarrow> nat" where
  "weight (For targets e body) = sum_list (map weight body) + length body + 2"
| "weight (IfMain body) = sum_list (map weight body) + length body + 1"
| "weight _ = 0"

datatype task = Stmt stmt | Block "stmt list" | Loop "string list" "stmt list" nat

fun syntax_weight :: "task \<Rightarrow> nat" where
  "syntax_weight (Stmt s) = weight s"
| "syntax_weight (Block ss) = sum_list (map weight ss) + length ss"
| "syntax_weight (Loop targets body n) = sum_list (map weight body) + length body + 1"

fun rounds :: "task \<Rightarrow> nat" where
  "rounds (Loop targets body n) = n"
| "rounds _ = 0"

function (sequential) run :: "nat \<Rightarrow> bool \<Rightarrow> scope \<Rightarrow> task \<Rightarrow> (scope \<times> bool) outcome" where
  "run fuel script sc (Stmt (Import ns)) = Done (bind_names ns sc, False)"
| "run fuel script sc (Stmt (Def f params body)) =
     Done (bind_name f (Fun params body) sc, False)"
| "run fuel script sc (Stmt (Assign targets (Reads ns) subs)) =
     (case lookup_all sc ns of
        Raised e \<Rightarrow> Raised e | NoFuel \<Rightarrow> NoFuel
      | Done _ \<Rightarrow> assign targets Opaque subs sc)"
| "run fuel script sc (Stmt (Assign targets (DictOf entries) subs)) =
     (case lookup_all sc (concat entries) of
        Raised e \<Rightarrow> Raised e | NoFuel \<Rightarrow> NoFuel
      | Done _ \<Rightarrow> assign targets (Coll (length entries)) subs sc)"
| "run fuel script sc (Stmt (Assign targets (CallOf f args) subs)) =
     (case lookup sc f of
        Raised e \<Rightarrow> Raised e
      | NoFuel \<Rightarrow> NoFuel
      | Done fv \<Rightarrow>
          (case lookup_args sc args of
             Raised e \<Rightarrow> Raised e
           | NoFuel \<Rightarrow> NoFuel
           | Done vs \<Rightarrow>
               (case fv of
                  Opaque \<Rightarrow> assign targets Opaque subs sc
                | Coll _ \<Rightarrow> Raised TypeError
                | Fun params body \<Rightarrow>
                    (if length params \<noteq> length vs then Raised TypeError
                     else case fuel of
                       0 \<Rightarrow> NoFuel
                     | Suc k \<Rightarrow>
                         (case run k script
                                 \<lparr>globals = globals sc, locals = Some (rev (zip params vs))\<rparr>
                                 (Block body) of
                            Raised e \<Rightarrow> Raised e
                          | NoFuel \<Rightarrow> NoFuel
                          | Done _ \<Rightarrow> assign targets Opaque subs sc)))))"
| "run fuel script sc (Stmt (Return ns)) =
     (case lookup_all sc ns of
        Raised x \<Rightarrow> Raised x | NoFuel \<Rightarrow> NoFuel
      | Done _ \<Rightarrow> Done (sc, True))"
| "run fuel script sc (Stmt (For targets n body)) =
     (case lookup sc n of
        Raised x \<Rightarrow> Raised x
      | NoFuel \<Rightarrow> NoFuel
      | Done (Coll k) \<Rightarrow> run fuel script sc (Loop targets body k)
      | Done _ \<Rightarrow> Raised TypeError)"
| "run fuel script sc (Stmt (IfMain body)) =
     (case lookup sc ''__name__'' of
        Raised x \<Rightarrow> Raised x
      | NoFuel \<Rightarrow> NoFuel
      | Done _ \<Rightarrow> if script then run fuel script sc (Block body) else Done (sc, False))"
| "run fuel script sc (Block []) = Done (sc, False)"
| "run fuel script sc (Block (s # ss)) =
     (case run fuel script sc (Stmt s) of
        Raised x \<Rightarrow> Raised x
      | NoFuel \<Rightarrow> NoFuel
      | Done (sc', returned) \<Rightarrow>
          if returned then Done (sc', True) else run fuel script sc' (Block ss))"
| "run fuel script sc (Loop targets body 0) = Done (sc, False)"
| "run fuel script sc (Loop targets body (Suc n)) =
     (case run fuel script (bind_names targets sc) (Block body) of
        Raised x \<Rightarrow> Raised x
      | NoFuel \<Rightarrow> NoFuel
      | Done (sc', returned) \<Rightarrow>
          if returned then Done (sc', True) else run fuel script sc' (Loop targets body n))"
  by pat_completeness auto
termination
  by (relation "measures [\<lambda>(fuel, script, sc, t). fuel,
                          \<lambda>(fuel, script, sc, t). syntax_weight t,
                          \<lambda>(fuel, script, sc, t). rounds t]") auto

text \<open>\<^verbatim>\<open>def main\<close>, lines 71 to 98.\<close>

definition main_def :: stmt where
  "main_def =
    Def ''main'' [''stock_ticker'', ''news_headline'']
      [Assign [''sentiment_analyzer''] (Reads [''SentimentIntensityAnalyzer'']) [],
       Assign [''start_date''] (Reads []) [],
       Assign [''end_date''] (Reads [''datetime'']) [],
       Assign [''stock_data'']
         (CallOf ''preprocess_data'' [Name ''stock_ticker'', Name ''start_date'', Name ''end_date'']) [],
       Assign [''news_data''] (Reads [''pd'', ''stock_data'', ''len'', ''stock_data'']) [],
       Assign [''merged_data''] (Reads [''stock_data'', ''news_data'']) [],
       Assign [''X''] (CallOf ''prepare_features'' [Name ''merged_data'', Name ''sentiment_analyzer'']) [],
       Assign [''scaler''] (Reads [''MinMaxScaler'']) [],
       Assign [''X_scaled''] (Reads [''scaler'', ''X'']) [],
       Assign [''X''] (Reads [''pd'', ''X_scaled'', ''X'', ''X'']) [],
       Assign [''y''] (Reads [''merged_data'']) [],
       Assign [''X_train'', ''X_test'', ''y_train'', ''y_test'']
         (Reads [''train_test_split'', ''X'', ''y'']) []]"

text \<open>The dictionary of lines 101 to 110 has eight entries, under eight different keys.\<close>

definition models_assignment :: stmt where
  "models_assignment =
    Assign [''models'']
      (DictOf [[''LogisticRegression''], [''RandomForestClassifier''], [''SVC''],
               [''XGBClassifier''], [''KNeighborsClassifier''], [''DecisionTreeClassifier''],
               [''AdaBoostClassifier''], [''MLPClassifier'']]) []"

text \<open>The loop of lines 112 to 125, a statement of the module.\<close>

definition training_loop :: stmt where
  "training_loop =
    For [''model_name'', ''model'', ''model_params''] ''models''
      [Assign [''accuracy'', ''y_pred'', ''best_model'']
         (CallOf ''train_and_evaluate_model''
            [Name ''model'', Name ''model_params'', Name ''X_train'', Name ''y_train'', Name ''X_test'', Name ''y_test'']) [],
       Assign [] (Reads [''print'', ''model_name'', ''best_model'']) [],
       Assign [] (Reads [''print'', ''model_name'', ''accuracy'']) [],
       Assign [] (Reads [''print'', ''model_name'', ''classification_report'', ''y_test'', ''y_pred'']) [],
       Assign [''sentiment''] (Reads [''sentiment_analyzer'', ''news_headline'']) [],
       Assign [''scaled_input'']
         (Reads [''scaler'', ''sentiment'', ''X_test'', ''X_test'', ''X_test'', ''X_test'',
                 ''X_test'', ''X_test'']) [],
       Assign [''prediction''] (Reads [''best_model'', ''scaled_input'']) [],
       Assign [''movement''] (Reads [''prediction'']) [],
       Assign [] (Reads [''print'', ''news_headline'', ''stock_ticker'', ''model_name'', ''movement'']) [],
       Assign [] (Reads [''print'']) []]"

text \<open>Lines 127 to 130.\<close>

definition main_guard :: stmt where
  "main_guard =
    IfMain
      [Assign [''stock_ticker''] (Reads [''input'']) [],
       Assign [''news_headline''] (Reads [''input'']) [],
       Assign [] (CallOf ''main'' [Name ''stock_ticker'', Name ''news_headline'']) []]"

text \<open>The module, in the order of the file.\<close>

definition module :: "stmt list" where
  "module =
   [Import [''yf''], Import [''pd''], Import [''np''],
    Import [''SentimentIntensityAnalyzer''],
    Import [''train_test_split'', ''GridSearchCV''],
    Import [''LogisticRegression''],
    Import [''RandomForestClassifier'', ''AdaBoostClassifier''],
    Import [''SVC''], Import [''KNeighborsClassifier''], Import [''DecisionTreeClassifier''],
    Import [''MLPClassifier''],
    Import [''accuracy_score'', ''classification_report''],
    Import [''MinMaxScaler''], Import [''XGBClassifier''], Import [''datetime''],
    Def ''sma'' [''data'', ''window'']
      [Return [''data'', ''window'']],
    Def ''rsi'' [''data'', ''window'']
      [Assign [''delta''] (Reads [''data'']) [],
       Assign [''gain''] (Reads [''delta'', ''delta'']) [],
       Assign [''loss''] (Reads [''delta'', ''delta'']) [],
       Assign [''avg_gain''] (Reads [''gain'', ''window'']) [],
       Assign [''avg_loss''] (Reads [''loss'', ''window'']) [],
       Assign [''rs''] (Reads [''avg_gain'', ''avg_loss'']) [],
       Return [''rs'']],
    Def ''bollinger_bands'' [''data'', ''window'']
      [Assign [''sma''] (Reads [''data'', ''window'']) [],
       Assign [''std_dev''] (Reads [''data'', ''window'']) [],
       Assign [''upper_band''] (Reads [''sma'', ''std_dev'']) [],
       Assign [''lower_band''] (Reads [''sma'', ''std_dev'']) [],
       Return [''upper_band'', ''lower_band'']],
    Def ''macd'' [''data'']
      [Assign [''exp12''] (Reads [''data'']) [],
       Assign [''exp26''] (Reads [''data'']) [],
       Assign [''macd''] (Reads [''exp12'', ''exp26'']) [],
       Assign [''signal_line''] (Reads [''macd'']) [],
       Return [''macd'', ''signal_line'']],
    Def ''preprocess_data'' [''stock_ticker'', ''start_date'', ''end_date'']
      [Assign [''data''] (Reads [''yf'', ''stock_ticker'', ''start_date'', ''end_date'']) [],
       Assign [] (Reads [''data'']) [''data''],
       Assign [] (Reads [''np'', ''data'']) [''data''],
       Assign [] (CallOf ''sma'' [Name ''data'', Literal]) [''data''],
       Assign [] (CallOf ''rsi'' [Name ''data'', Literal]) [''data''],
       Assign [] (CallOf ''bollinger_bands'' [Name ''data'', Literal]) [''data'', ''data''],
       Assign [] (CallOf ''macd'' [Name ''data'']) [''data'', ''data''],
       Assign [''data''] (Reads [''data'']) [],
       Return [''data'']],
    Def ''prepare_features'' [''data'', ''sentiment_analyzer'']
      [Assign [] (Reads [''data'', ''sentiment_analyzer'']) [''data''],
       Assign [''features''] (Reads [''data'']) [],
       Return [''features'']],
    Def ''train_and_evaluate_model''
        [''model'', ''model_params'', ''X_train'', ''y_train'', ''X_test'', ''y_test'']
      [Assign [''grid_search''] (Reads [''GridSearchCV'', ''model'', ''model_params'']) [],
       Assign [] (Reads [''grid_search'', ''X_train'', ''y_train'']) [],
       Assign [''best_model''] (Reads [''grid_search'']) [],
       Assign [''y_pred''] (Reads [''best_model'', ''X_test'']) [],
       Assign [''accuracy''] (Reads [''accuracy_score'', ''y_test'', ''y_pred'']) [],
       Return [''accuracy'', ''y_pred'', ''best_model'']],
    main_def, models_assignment, training_loop, main_guard]"

definition run_module :: "nat \<Rightarrow> bool \<Rightarrow> (scope \<times> bool) outcome" where
  "run_module fuel script = run fuel script \<lparr>globals = [], locals = None\<rparr> (Block module)"


text \<open>The names a statement binds in the scope it runs in, and the names it reads there.
  A function body is not entered: it runs in a scope of its own.\<close>

fun stores :: "stmt \<Rightarrow> string list" where
  "stores (Import ns) = ns"
| "stores (Def f params body) = [f]"
| "stores (Assign targets e subs) = targets"
| "stores (Return ns) = []"
| "stores (For targets n body) = targets @ concat (map stores body)"
| "stores (IfMain body) = concat (map stores body)"

fun reads_of_rhs :: "rhs \<Rightarrow> string list" where
  "reads_of_rhs (Reads ns) = ns"
| "reads_of_rhs (CallOf f args) = f # concat (map (\<lambda>a. case a of Name n \<Rightarrow> [n] | Literal \<Rightarrow> []) args)"
| "reads_of_rhs (DictOf entries) = concat entries"

fun reads :: "stmt \<Rightarrow> string list" where
  "reads (Import ns) = []"
| "reads (Def f params body) = []"
| "reads (Assign targets e subs) = reads_of_rhs e @ subs"
| "reads (Return ns) = ns"
| "reads (For targets n body) = n # concat (map reads body)"
| "reads (IfMain body) = ''__name__'' # concat (map reads body)"

text \<open>The local names of a function: its parameters and the names its body binds.\<close>

fun local_names :: "stmt \<Rightarrow> string list" where
  "local_names (Def f params body) = params @ concat (map stores body)"
| "local_names _ = []"

section \<open>The exponential moving average, as the specification words it\<close>

text \<open>EMA of span \<open>s\<close>: the first value is the first input, with no bias adjustment; each
  later value is \<open>\<alpha>\<close> times the input plus \<open>1 - \<alpha>\<close> times the previous value, where
  \<open>\<alpha> = 2 / (s + 1)\<close>.\<close>

fun ema_spec :: "nat \<Rightarrow> real list \<Rightarrow> nat \<Rightarrow> real" where
  "ema_spec s xs 0 = xs ! 0"
| "ema_spec s xs (Suc t) =
     2 / (real s + 1) * xs ! Suc t + (1 - 2 / (real s + 1)) * ema_spec s xs t"

section \<open>Example data\<close>

definition bar :: "nat \<Rightarrow> real \<Rightarrow> price_bar" where
  "bar d c = \<lparr>Date = d, Open = c, High = c, Low = c, Close = c, Volume = 1000\<rparr>"

text \<open>Fifteen trading days. The first fourteen closes have mean 10 and sample standard
  deviation 2.\<close>

definition sample_data :: "price_bar list" where
  "sample_data =
     [bar 1 13, bar 2 7, bar 3 12, bar 4 8, bar 5 13, bar 6 7, bar 7 12, bar 8 8,
      bar 9 10, bar 10 10, bar 11 10, bar 12 10, bar 13 10, bar 14 10, bar 15 11]"


text \<open>A feature table of three rows under the seven column names; the headline is the
  same on every row, and so is its score.\<close>

definition sample_matrix :: "real list list" where
  "sample_matrix =
     [[0, 10, 50, 12, 8, 1, 1],
      [0, 20, 60, 22, 18, 2, 3],
      [0, 30, 70, 32, 28, 3, 2]]"

definition sample_features :: "fval frame" where
  "sample_features = \<lparr>columns = feature_names, rows = map (map Fin) sample_matrix\<rparr>"

text \<open>What lines 90 to 98 bind for that table when the split puts rows 0 and 2 in the
  training set and row 1 in the test set.\<close>

definition sample_locals :: main_locals where
  "sample_locals =
     \<lparr>the_scaler =
        \<lparr>data_min = [0, 10, 50, 12, 8, 1, 1], data_max = [0, 30, 70, 32, 28, 3, 3],
         scale_factor = [1, 1 / 20, 1 / 20, 1 / 20, 1 / 20, 1 / 2, 1 / 2],
         offset = [0, - (1 / 2), - (5 / 2), - (3 / 5), - (2 / 5), - (1 / 2), - (1 / 2)]\<rparr>,
      X_train = \<lparr>columns = feature_names,
                 rows = [[0, 0, 0, 0, 0, 0, 0], [0, 1, 1, 1, 1, 1, 1 / 2]]\<rparr>,
      X_test = \<lparr>columns = feature_names,
                rows = [[0, 1 / 2, 1 / 2, 1 / 2, 1 / 2, 1 / 2, 1]]\<rparr>,
      y_train = [1, 1],
      y_test = [- 1]\<rparr>"

section \<open>Facts about the Series operations\<close>

lemma length_rolling [simp]: "length (rolling w stat xs) = length xs"
  by (simp add: rolling_def)

lemma rolling_nth:
  "i < length xs \<Longrightarrow>
   rolling w stat xs ! i =
     (if Suc i < w then None else Option.bind (those (window_at w xs i)) stat)"
  by (simp add: rolling_def)

lemma those_map_Some [simp]: "those (map Some ys) = Some ys"
  by (induction ys) simp_all

lemma those_map_Some_fun [simp]: "those (map (\<lambda>b. Some (f b)) ys) = Some (map f ys)"
  by (induction ys) simp_all

lemma window_at_map: "window_at w (map f ys) i = map f (window_at w ys i)"
  by (simp add: window_at_def take_map drop_map)

lemma length_window_at:
  "w \<le> Suc i \<Longrightarrow> i < length xs \<Longrightarrow> length (window_at w xs i) = w"
  by (simp add: window_at_def)

lemma window_at_nth:
  "w \<le> Suc i \<Longrightarrow> i < length xs \<Longrightarrow> j < w \<Longrightarrow> window_at w xs i ! j = xs ! (Suc i - w + j)"
  by (simp add: window_at_def)

lemma sum_list_window_at:
  fixes xs :: "real list"
  assumes "w \<le> Suc i" "i < length xs"
  shows "sum_list (window_at w xs i) = (\<Sum>k<w. xs ! (i - k))"
proof -
  have "sum_list (window_at w xs i) = (\<Sum>j<w. window_at w xs i ! j)"
    using assms by (simp add: sum_list_sum_nth length_window_at atLeast0LessThan)
  also have "\<dots> = (\<Sum>j<w. xs ! (Suc i - w + j))"
    using assms by (intro sum.cong refl) (simp add: window_at_nth)
  also have "\<dots> = (\<Sum>k<w. xs ! (i - k))"
    using assms
    by (intro sum.reindex_bij_witness [where i = "\<lambda>k. w - 1 - k" and j = "\<lambda>j. w - 1 - j"]) auto
  finally show ?thesis .
qed

lemma close_column_conv: "close_column data = map Some (map Close data)"
  by (simp add: close_column_def)

lemma length_ewm_from [simp]: "length (ewm_from a y xs) = length xs"
  by (induction xs arbitrary: y) simp_all

lemma length_ewm_mean [simp]: "length (ewm_mean spn xs) = length xs"
  by (simp add: ewm_mean_def split: list.split)

lemma length_pct_change [simp]: "length (pct_change xs) = length xs"
  by (simp add: pct_change_def split: list.split)

lemma length_diff_from [simp]: "length (diff_from p xs) = length xs"
  by (induction xs arbitrary: p) simp_all

lemma length_diff [simp]: "length (diff xs) = length xs"
  by (simp add: diff_def)

lemma length_gain_loss [simp]:
  "length (gain data) = length data" "length (loss data) = length data"
  by (simp_all add: gain_def loss_def delta_def where_else_def close_column_def)

lemma length_rs [simp]: "length (rs data w) = length data"
  by (simp add: rs_def avg_gain_def avg_loss_def)

lemma length_rsi [simp]: "length (rsi data w) = length data"
  by (simp add: rsi_def)

lemma length_bollinger [simp]:
  "length (fst (bollinger_bands data w)) = length data"
  "length (snd (bollinger_bands data w)) = length data"
  by (simp_all add: bollinger_bands_def Let_def close_column_def)

lemma length_macd [simp]:
  "length (fst (macd data)) = length data"
  "length (snd (macd data)) = length data"
  by (simp_all add: macd_def Let_def)

lemma length_sma [simp]: "length (sma data w) = length data"
  by (simp add: sma_def close_column_def)

lemma length_add_columns [simp]: "length (add_columns data) = length data"
  by (simp add: add_columns_def Let_def)

lemma sma_nth:
  assumes "i < length data"
  shows "sma data w ! i =
     (if Suc i < w then None else mean (map Close (window_at w data i)))"
  using assms by (simp add: sma_def rolling_nth close_column_def window_at_map)

lemma filter_drop_failing:
  assumes "\<And>i. i < n \<Longrightarrow> i < length xs \<Longrightarrow> \<not> P (xs ! i)"
  shows "filter P xs = filter P (drop n xs)"
proof -
  have "filter P (take n xs) = []"
    unfolding filter_empty_conv using assms by (auto simp: in_set_conv_nth)
  then have "filter P (take n xs @ drop n xs) = filter P (drop n xs)"
    by (simp del: append_take_drop_id)
  then show ?thesis by simp
qed

lemma add_columns_nth_SMA:
  "i < length data \<Longrightarrow> SMA (add_columns data ! i) = sma data 14 ! i"
  by (simp add: add_columns_def Let_def)

lemma length_sample_data: "length sample_data = 15"
  by (simp add: sample_data_def)

section \<open>The simple moving average\<close>

text \<open>
  Claim C6. On row \<open>i\<close> of any price table, \<^verbatim>\<open>sma(data, 14)\<close> is missing when \<open>i < 13\<close>
  and is otherwise the sum of the fourteen closes \<open>Close (data ! (i - k))\<close>, \<open>k < 14\<close>,
  divided by fourteen. The \<^verbatim>\<open>SMA\<close> column of the table is that series, and
  \<^verbatim>\<open>preprocess_data\<close> returns no row of the first thirteen: its result is what
  \<^verbatim>\<open>dropna\<close> leaves of the rows from the fourteenth on.
\<close>

theorem sma_is_trailing_mean:
  assumes "i < length data"
  shows "sma data 14 ! i
           = (if i < 13 then None else Some ((\<Sum>k<14. Close (data ! (i - k))) / 14))
       \<and> SMA (add_columns data ! i) = sma data 14 ! i
       \<and> preprocess_data data = dropna (drop 13 (add_columns data))"
proof (intro conjI)
  show "sma data 14 ! i
          = (if i < 13 then None else Some ((\<Sum>k<14. Close (data ! (i - k))) / 14))"
  proof (cases "i < 13")
    case True
    then show ?thesis using assms by (simp add: sma_nth)
  next
    case False
    then have w: "14 \<le> Suc i" by simp
    have len: "length (window_at 14 data i) = 14"
      using w assms by (rule length_window_at)
    have "sum_list (map Close (window_at 14 data i))
            = sum_list (window_at 14 (map Close data) i)"
      by (simp add: window_at_map)
    also have "\<dots> = (\<Sum>k<14. map Close data ! (i - k))"
      using w assms by (intro sum_list_window_at) simp_all
    also have "\<dots> = (\<Sum>k<14. Close (data ! (i - k)))"
      using assms by (intro sum.cong refl) simp
    finally have total:
      "sum_list (map Close (window_at 14 data i)) = (\<Sum>k<14. Close (data ! (i - k)))" .
    have "window_at 14 data i \<noteq> []" using len by auto
    then show ?thesis using assms False total len by (simp add: sma_nth mean_def)
  qed
next
  show "SMA (add_columns data ! i) = sma data 14 ! i"
    using assms by (rule add_columns_nth_SMA)
next
  have "filter (\<lambda>r. \<not> has_na r) (add_columns data)
          = filter (\<lambda>r. \<not> has_na r) (drop 13 (add_columns data))"
  proof (rule filter_drop_failing)
    fix j assume "j < 13" "j < length (add_columns data)"
    then have "SMA (add_columns data ! j) = None"
      by (simp add: add_columns_nth_SMA sma_nth)
    then show "\<not> \<not> has_na (add_columns data ! j)" by (simp add: has_na_def)
  qed
  then show "preprocess_data data = dropna (drop 13 (add_columns data))"
    by (simp add: preprocess_data_def dropna_def)
qed

theorem sma_is_trailing_mean_witness:
  "sma sample_data 14 ! 12 = None \<and> sma sample_data 14 ! 13 = Some 10
   \<and> SMA (add_columns sample_data ! 13) = Some 10"
  using sma_is_trailing_mean [of 12 sample_data] sma_is_trailing_mean [of 13 sample_data]
  by (simp add: length_sample_data sample_data_def bar_def lessThan_nat_numeral lessThan_Suc)

lemma ema_spec_shift:
  "ema_spec s (((1 - 2 / (real s + 1)) * y + 2 / (real s + 1) * x) # xs) k
     = ema_spec s (y # x # xs) (Suc k)"
proof (induction k)
  case 0
  show ?case by (simp add: algebra_simps)
next
  case (Suc k)
  then show ?case by simp
qed

lemma ewm_from_nth:
  "i < length xs \<Longrightarrow> ewm_from (2 / (real s + 1)) y xs ! i = ema_spec s (y # xs) (Suc i)"
proof (induction xs arbitrary: y i)
  case Nil
  then show ?case by simp
next
  case (Cons x xs)
  show ?case
  proof (cases i)
    case 0
    then show ?thesis by (simp add: algebra_simps)
  next
    case (Suc j)
    with Cons.prems have "j < length xs" by simp
    from Cons.IH [OF this]
    have "ewm_from (2 / (real s + 1)) ((1 - 2 / (real s + 1)) * y + 2 / (real s + 1) * x) xs ! j
            = ema_spec s (((1 - 2 / (real s + 1)) * y + 2 / (real s + 1) * x) # xs) (Suc j)" .
    also have "\<dots> = ema_spec s (y # x # xs) (Suc (Suc j))"
      by (rule ema_spec_shift)
    finally show ?thesis using Suc by simp
  qed
qed

lemma ewm_mean_nth:
  "t < length xs \<Longrightarrow> ewm_mean s xs ! t = ema_spec s xs t"
proof (cases xs)
  case Nil
  assume "t < length xs"
  with Nil show ?thesis by simp
next
  case (Cons x rest)
  assume t: "t < length xs"
  show ?thesis
  proof (cases t)
    case 0
    then show ?thesis using Cons by (simp add: ewm_mean_def)
  next
    case (Suc j)
    with t Cons have "j < length rest" by simp
    then show ?thesis using Cons Suc ewm_from_nth [of j rest s x]
      by (simp add: ewm_mean_def)
  qed
qed

section \<open>MACD and its signal line\<close>

text \<open>
  Claim C7. On every row \<open>t\<close> of any price table, the MACD column is the span-12 EMA of
  Close minus the span-26 EMA of Close, and the signal line is the span-9 EMA of the MACD
  column, each EMA being the recurrence \<open>ema_spec\<close> that starts from the first value.
\<close>

theorem macd_is_ema_difference:
  assumes "t < length data"
  shows "fst (macd data) ! t
           = ema_spec 12 (map Close data) t - ema_spec 26 (map Close data) t
       \<and> snd (macd data) ! t = ema_spec 9 (fst (macd data)) t"
proof
  show "fst (macd data) ! t = ema_spec 12 (map Close data) t - ema_spec 26 (map Close data) t"
    using assms by (simp add: macd_def Let_def ewm_mean_nth)
  have "t < length (fst (macd data))" using assms by simp
  then have "ewm_mean 9 (fst (macd data)) ! t = ema_spec 9 (fst (macd data)) t"
    by (rule ewm_mean_nth)
  then show "snd (macd data) ! t = ema_spec 9 (fst (macd data)) t"
    by (simp add: macd_def Let_def)
qed

theorem macd_is_ema_difference_witness:
  "fst (macd sample_data) ! 1 = 157 / 13 - 113 / 9
   \<and> snd (macd sample_data) ! 1 = - (56 / 585)"
  using macd_is_ema_difference [of 1 sample_data]
  by (simp add: length_sample_data sample_data_def bar_def macd_def ewm_mean_def)

lemma add_columns_nth:
  "i < length data \<Longrightarrow>
   add_columns data ! i =
     \<lparr>Date = Date (data ! i), Open = Open (data ! i), High = High (data ! i),
      Low = Low (data ! i), Close = Close (data ! i), Volume = Volume (data ! i),
      Returns = pct_change (map Close data) ! i,
      Direction = (if fgt (pct_change (map Close data) ! i) (Fin 0) then 1 else - 1),
      SMA = sma data 14 ! i, RSI = rsi data 14 ! i,
      BB_Upper = fst (bollinger_bands data 14) ! i,
      BB_Lower = snd (bollinger_bands data 14) ! i,
      MACD = fst (macd data) ! i, Signal_Line = snd (macd data) ! i\<rparr>"
  by (simp add: add_columns_def Let_def)

lemma pct_change_nth:
  "i < length xs \<Longrightarrow>
   pct_change xs ! i =
     (if i = 0 then NaN else fsub (fdiv (Fin (xs ! i)) (Fin (xs ! (i - 1)))) (Fin 1))"
proof (cases xs)
  case Nil
  assume "i < length xs"
  with Nil show ?thesis by simp
next
  case (Cons x t)
  assume "i < length xs"
  then show ?thesis using Cons
    by (cases i) (simp_all add: pct_change_def)
qed

lemma preprocessed_row_index:
  assumes "r \<in> set (preprocess_data data)"
  obtains i where "i < length data" "r = add_columns data ! i" "\<not> has_na r"
proof -
  from assms have "r \<in> set (add_columns data)" and na: "\<not> has_na r"
    by (simp_all add: preprocess_data_def dropna_def)
  then obtain i where "i < length (add_columns data)" "add_columns data ! i = r"
    by (auto simp: in_set_conv_nth)
  then show thesis using that na by simp
qed

lemma return_positive_iff:
  assumes "0 < p"
  shows "fgt (fsub (fdiv (Fin c) (Fin p)) (Fin 1)) (Fin 0) \<longleftrightarrow> p < c"
proof -
  have "fsub (fdiv (Fin c) (Fin p)) (Fin 1) = Fin (c / p - 1)"
    using assms by (simp add: fsub_def)
  moreover have "0 < c / p - 1 \<longleftrightarrow> p < c"
    using assms by (simp add: field_simps)
  ultimately show ?thesis by simp
qed

section \<open>The direction label\<close>

text \<open>
  Claim C1. Every row \<open>r\<close> of the table that \<^verbatim>\<open>preprocess_data\<close> returns is a row \<open>i > 0\<close>
  of the downloaded data; its \<^verbatim>\<open>Returns\<close> entry is that row's own close over the close of
  the row before, minus one (no shift to the next day); its \<^verbatim>\<open>Direction\<close> is \<open>1\<close> when
  that entry is greater than zero and \<open>-1\<close> otherwise, and never anything else. When the
  close of the row before is positive, the label is \<open>1\<close> exactly when the close rose.
\<close>

theorem direction_is_sign_of_own_return:
  assumes "r \<in> set (preprocess_data data)"
  shows "\<exists>i. 0 < i \<and> i < length data \<and> r = add_columns data ! i
           \<and> Close r = Close (data ! i)
           \<and> Returns r = fsub (fdiv (Fin (Close (data ! i))) (Fin (Close (data ! (i - 1))))) (Fin 1)
           \<and> Direction r = (if fgt (Returns r) (Fin 0) then 1 else - 1)
           \<and> (Direction r = 1 \<or> Direction r = - 1)
           \<and> (0 < Close (data ! (i - 1)) \<longrightarrow>
                 (Direction r = 1 \<longleftrightarrow> Close (data ! (i - 1)) < Close (data ! i)))"
proof -
  from assms obtain i where i: "i < length data" and r: "r = add_columns data ! i"
    and na: "\<not> has_na r" by (rule preprocessed_row_index)
  have ret: "Returns r = pct_change (map Close data) ! i"
    unfolding r using i by (simp only: add_columns_nth derived_row.simps)
  have pos: "0 < i"
  proof (rule ccontr)
    assume "\<not> 0 < i"
    then have "Returns r = NaN" using ret i by (simp add: pct_change_nth)
    then show False using na by (simp add: has_na_def)
  qed
  have ret': "Returns r
      = fsub (fdiv (Fin (Close (data ! i))) (Fin (Close (data ! (i - 1))))) (Fin 1)"
    using ret i pos by (simp add: pct_change_nth)
  have dir: "Direction r = (if fgt (Returns r) (Fin 0) then 1 else - 1)"
    unfolding r using i by (simp only: add_columns_nth derived_row.simps)
  have two: "Direction r = 1 \<or> Direction r = - 1"
    unfolding dir by simp
  have one: "Direction r = 1 \<longleftrightarrow> fgt (Returns r) (Fin 0)"
    unfolding dir by simp
  have price: "0 < Close (data ! (i - 1)) \<longrightarrow>
          (Direction r = 1 \<longleftrightarrow> Close (data ! (i - 1)) < Close (data ! i))"
    by (intro impI) (simp only: one ret' return_positive_iff)
  have cl: "Close r = Close (data ! i)"
    unfolding r using i by (simp only: add_columns_nth price_bar.simps)
  show ?thesis
    by (rule exI [of _ i]) (intro conjI pos i r cl ret' dir two price)
qed

lemma rsi_nth:
  "i < length data \<Longrightarrow>
   rsi data w ! i =
     fsub (Fin 100) (fdiv (Fin 100) (fadd (Fin 1)
       (fdiv (of_entry (avg_gain data w ! i)) (of_entry (avg_loss data w ! i)))))"
  by (simp add: rsi_def rs_def avg_gain_def avg_loss_def)

lemma bollinger_nth:
  "i < length data \<Longrightarrow>
   fst (bollinger_bands data w) ! i =
     plus_entry (rolling w mean (close_column data) ! i)
                (map_option (\<lambda>s. 2 * s) (rolling w std (close_column data) ! i))"
  "i < length data \<Longrightarrow>
   snd (bollinger_bands data w) ! i =
     minus_entry (rolling w mean (close_column data) ! i)
                (map_option (\<lambda>s. 2 * s) (rolling w std (close_column data) ! i))"
  by (simp_all add: bollinger_bands_def Let_def close_column_def)


lemma sample_row_14_kept:
  "\<not> has_na (add_columns sample_data ! 14)"
  by (simp add: add_columns_nth has_na_def length_sample_data pct_change_nth sma_nth rsi_nth
        bollinger_nth rolling_nth avg_gain_def avg_loss_def gain_def loss_def delta_def diff_def
        where_else_def close_column_def window_at_def mean_def std_def fsub_def
        sample_data_def bar_def)


theorem direction_is_sign_of_own_return_witness:
  "add_columns sample_data ! 14 \<in> set (preprocess_data sample_data)
   \<and> (Direction (add_columns sample_data ! 14) = 1
        \<or> Direction (add_columns sample_data ! 14) = - 1)"
proof -
  have "add_columns sample_data ! 14 \<in> set (add_columns sample_data)"
    by (rule nth_mem) (simp add: length_sample_data)
  then have kept: "add_columns sample_data ! 14 \<in> set (preprocess_data sample_data)"
    using sample_row_14_kept by (simp add: preprocess_data_def dropna_def)
  from direction_is_sign_of_own_return [OF kept] kept show ?thesis by blast
qed

lemma those_SomeD:
  "those ws = Some ys \<Longrightarrow> length ys = length ws \<and> (\<forall>k<length ws. ws ! k = Some (ys ! k))"
proof (induction ws arbitrary: ys)
  case Nil
  then show ?case by simp
next
  case (Cons w ws)
  then obtain y rest where w: "w = Some y" and rest: "those ws = Some rest" and ys: "ys = y # rest"
    by (auto split: option.splits)
  from Cons.IH [OF rest] show ?case
    using w ys by (auto simp: nth_Cons split: nat.splits)
qed

lemma diff_from_present:
  "k < length xs \<Longrightarrow> diff_from p xs ! k = None \<or> (\<exists>d. diff_from p xs ! k = Some d)"
  by (cases "diff_from p xs ! k") simp_all

lemma gain_entry:
  assumes "k < length data"
  shows "\<exists>x. gain data ! k = Some x \<and> 0 \<le> x"
proof -
  have len: "k < length (delta data)" using assms by (simp add: delta_def close_column_def)
  show ?thesis
  proof (cases "delta data ! k")
    case None
    then show ?thesis using len by (simp add: gain_def where_else_def)
  next
    case (Some d)
    then show ?thesis using len by (simp add: gain_def where_else_def)
  qed
qed

lemma loss_entry:
  assumes "k < length data"
  shows "\<exists>x. loss data ! k = Some x \<and> 0 \<le> x"
proof -
  have len: "k < length (delta data)" using assms by (simp add: delta_def close_column_def)
  show ?thesis
  proof (cases "delta data ! k")
    case None
    then show ?thesis using len by (simp add: loss_def where_else_def)
  next
    case (Some d)
    then show ?thesis using len by (simp add: loss_def where_else_def)
  qed
qed

lemma rolling_mean_nonneg:
  assumes i: "i < length xs"
    and nonneg: "\<And>k. k < length xs \<Longrightarrow> \<exists>x. xs ! k = Some x \<and> 0 \<le> x"
    and some: "rolling w mean xs ! i = Some m"
  shows "0 \<le> m"
proof -
  from some i have w: "\<not> Suc i < w"
    and b: "Option.bind (those (window_at w xs i)) mean = Some m"
    by (auto simp: rolling_nth split: if_splits)
  from b obtain ys where ys: "those (window_at w xs i) = Some ys" and m: "mean ys = Some m"
    by (auto simp: bind_eq_Some_conv)
  have "0 \<le> y" if "y \<in> set ys" for y
  proof -
    from that obtain k where k: "k < length ys" "ys ! k = y" by (auto simp: in_set_conv_nth)
    from those_SomeD [OF ys] k
    have kw: "k < length (window_at w xs i)" and e: "window_at w xs i ! k = Some y" by auto
    have "window_at w xs i ! k \<in> set xs"
      using kw unfolding window_at_def
      by (metis in_set_dropD in_set_takeD nth_mem)
    then obtain j where "j < length xs" "xs ! j = Some y"
      using e by (auto simp: in_set_conv_nth)
    with nonneg [of j] show ?thesis by auto
  qed
  then have "0 \<le> sum_list ys" by (rule sum_list_nonneg)
  with m show ?thesis by (auto simp: mean_def split: if_splits)
qed

lemma rsi_of_averages:
  assumes "0 \<le> g" "0 \<le> l"
  shows "fsub (Fin 100) (fdiv (Fin 100) (fadd (Fin 1) (fdiv (Fin g) (Fin l))))
           = (if l \<noteq> 0 then Fin (100 - 100 / (1 + g / l))
              else if 0 < g then Fin 100 else NaN)"
proof (cases "l = 0")
  case True
  then show ?thesis using assms by (simp add: fsub_def)
next
  case False
  then have "0 < l" using assms by simp
  then have "0 \<le> g / l" using assms by simp
  then have "1 + g / l \<noteq> 0" by linarith
  then show ?thesis using False by (simp add: fsub_def)
qed



lemma those_all_Some:
  "(\<And>k. k < length ws \<Longrightarrow> \<exists>x. ws ! k = Some x) \<Longrightarrow> \<exists>ys. those ws = Some ys \<and> length ys = length ws"
proof (induction ws)
  case Nil
  then show ?case by simp
next
  case (Cons w ws)
  from Cons.prems [of 0] obtain x where x: "w = Some x" by auto
  have "\<exists>ys. those ws = Some ys \<and> length ys = length ws"
  proof (rule Cons.IH)
    fix k assume "k < length ws"
    then show "\<exists>x. ws ! k = Some x" using Cons.prems [of "Suc k"] by simp
  qed
  then show ?case using x by auto
qed

lemma rolling_mean_defined:
  assumes i: "i < length xs" and w: "0 < w" "w \<le> Suc i"
    and present: "\<And>k. k < length xs \<Longrightarrow> \<exists>x. xs ! k = Some x \<and> 0 \<le> x"
  shows "\<exists>m. rolling w mean xs ! i = Some m \<and> 0 \<le> m"
proof -
  have len: "length (window_at w xs i) = w" using w i by (simp add: length_window_at)
  have "\<exists>ys. those (window_at w xs i) = Some ys \<and> length ys = length (window_at w xs i)"
  proof (rule those_all_Some)
    fix k assume k: "k < length (window_at w xs i)"
    then have "window_at w xs i ! k = xs ! (Suc i - w + k)"
      using w i len by (simp add: window_at_nth)
    moreover have "Suc i - w + k < length xs" using k len w i by simp
    ultimately show "\<exists>x. window_at w xs i ! k = Some x" using present by auto
  qed
  then obtain ys where ys: "those (window_at w xs i) = Some ys" "length ys = w"
    using len by auto
  then have "ys \<noteq> []" using w by auto
  then have "rolling w mean xs ! i = Some (sum_list ys / real (length ys))"
    using i w ys by (simp add: rolling_nth mean_def)
  then show ?thesis using rolling_mean_nonneg [OF i present] by auto
qed

lemma averages_defined:
  assumes "i < length data" "13 \<le> i"
  shows "\<exists>g l. avg_gain data 14 ! i = Some g \<and> avg_loss data 14 ! i = Some l \<and> 0 \<le> g \<and> 0 \<le> l"
proof -
  have "\<exists>g. rolling 14 mean (gain data) ! i = Some g \<and> 0 \<le> g"
    using assms by (intro rolling_mean_defined) (simp_all add: gain_entry)
  moreover have "\<exists>l. rolling 14 mean (loss data) ! i = Some l \<and> 0 \<le> l"
    using assms by (intro rolling_mean_defined) (simp_all add: loss_entry)
  ultimately show ?thesis by (auto simp: avg_gain_def avg_loss_def)
qed

lemma averages_missing:
  assumes "i < length data" "i < 13"
  shows "avg_gain data 14 ! i = None" "avg_loss data 14 ! i = None"
  using assms by (simp_all add: avg_gain_def avg_loss_def rolling_nth)


section \<open>The relative strength index\<close>




lemma rolling_close_nth:
  assumes "i < length data" "w \<le> Suc i"
  shows "rolling w stat (close_column data) ! i = stat (map Close (window_at w data i))"
  using assms by (simp add: rolling_nth close_column_def window_at_map)

lemma variance_nonneg:
  assumes "2 \<le> length xs"
  shows "0 \<le> variance xs"
proof -
  have "0 \<le> sum_list (map (\<lambda>x. (x - sum_list xs / real (length xs))\<^sup>2) xs)"
    by (rule sum_list_nonneg) auto
  moreover have "0 < real (length xs) - 1" using assms by simp
  ultimately show ?thesis by (simp add: variance_def Let_def)
qed

section \<open>Bollinger bands\<close>

text \<open>
  Claim C8. On the first thirteen rows both bands are missing. On every later row \<open>i\<close>,
  with \<open>xs\<close> the fourteen closes ending at \<open>i\<close>, \<open>m\<close> their mean (the SMA of the row) and
  \<open>s\<close> their sample standard deviation, the upper band is \<open>m + 2 * s\<close>, the lower band is
  \<open>m - 2 * s\<close>, and the lower band is at most the SMA, which is at most the upper band.
\<close>

theorem bollinger_bands_around_sma:
  assumes "i < length data"
  shows "if i < 13
         then fst (bollinger_bands data 14) ! i = None \<and> snd (bollinger_bands data 14) ! i = None
         else (let xs = map Close (window_at 14 data i);
                   m = sum_list xs / 14;
                   s = sqrt (sum_list (map (\<lambda>x. (x - m)\<^sup>2) xs) / 13)
               in sma data 14 ! i = Some m
                  \<and> fst (bollinger_bands data 14) ! i = Some (m + 2 * s)
                  \<and> snd (bollinger_bands data 14) ! i = Some (m - 2 * s)
                  \<and> BB_Upper (add_columns data ! i) = Some (m + 2 * s)
                  \<and> BB_Lower (add_columns data ! i) = Some (m - 2 * s)
                  \<and> m - 2 * s \<le> m \<and> m \<le> m + 2 * s)"
proof (cases "i < 13")
  case True
  then show ?thesis using assms by (simp add: bollinger_nth rolling_nth close_column_def)
next
  case False
  then have w: "14 \<le> Suc i" by simp
  define xs where "xs = map Close (window_at 14 data i)"
  define m where "m = sum_list xs / 14"
  define s where "s = sqrt (sum_list (map (\<lambda>x. (x - m)\<^sup>2) xs) / 13)"
  have len: "length xs = 14" using w assms by (simp add: xs_def length_window_at)
  then have ne: "xs \<noteq> []" by auto
  have mean: "rolling 14 mean (close_column data) ! i = Some m"
    using assms w ne len by (simp add: rolling_close_nth mean_def xs_def [symmetric] m_def)
  have var: "variance xs = sum_list (map (\<lambda>x. (x - m)\<^sup>2) xs) / 13"
    using len by (simp add: variance_def Let_def m_def)
  have dev: "rolling 14 std (close_column data) ! i = Some s"
    using assms w len var by (simp add: rolling_close_nth std_def xs_def [symmetric] s_def)
  have "0 \<le> variance xs" using len by (intro variance_nonneg) simp
  then have s0: "0 \<le> s" unfolding s_def var by simp
  have up: "fst (bollinger_bands data 14) ! i = Some (m + 2 * s)"
    and lo: "snd (bollinger_bands data 14) ! i = Some (m - 2 * s)"
    using assms mean dev by (simp_all add: bollinger_nth)
  have sm: "sma data 14 ! i = Some m" using mean by (simp add: sma_def)
  have cols: "BB_Upper (add_columns data ! i) = Some (m + 2 * s)"
             "BB_Lower (add_columns data ! i) = Some (m - 2 * s)"
    using assms up lo by (simp_all add: add_columns_nth)
  show ?thesis
    using False sm up lo cols s0
    unfolding Let_def xs_def [symmetric] m_def [symmetric] s_def [symmetric] by simp
qed

theorem bollinger_bands_around_sma_witness:
  "sma sample_data 14 ! 13 = Some 10
   \<and> fst (bollinger_bands sample_data 14) ! 13 = Some 14
   \<and> snd (bollinger_bands sample_data 14) ! 13 = Some 6
   \<and> fst (bollinger_bands sample_data 14) ! 12 = None"
  using bollinger_bands_around_sma [of 13 sample_data] bollinger_bands_around_sma [of 12 sample_data]
  by (simp add: length_sample_data window_at_def sample_data_def bar_def power2_eq_square)

section \<open>The loop at module level\<close>

lemmas scope_simps = bind_names_def bind_name_def lookup_def assign_def builtins_def

lemma loop_removed_script_finishes:
  "(case run 3 True \<lparr>globals = [], locals = None\<rparr> (Block (remove1 training_loop module)) of
      Done (sc, _) \<Rightarrow> map_of (globals sc) ''X_train'' = None
                       \<and> map_of (globals sc) ''scaler'' = None
                       \<and> map_of (globals sc) ''stock_ticker'' = Some Opaque
    | _ \<Rightarrow> False)"
  by code_simp

text \<open>
  Claim C2, as the code has it. The loop of lines 112 to 125 is a statement of the module
  and reads \<^verbatim>\<open>X_train\<close>, \<^verbatim>\<open>y_train\<close>, \<^verbatim>\<open>X_test\<close>, \<^verbatim>\<open>y_test\<close>, \<^verbatim>\<open>scaler\<close>,
  \<^verbatim>\<open>stock_ticker\<close> and \<^verbatim>\<open>news_headline\<close>. The first five are local names of
  \<^verbatim>\<open>main\<close> and no statement of the module binds them. The last two are parameters of
  \<^verbatim>\<open>main\<close> and are also bound at module level, by the guarded block of lines 127 to 130,
  which comes after the loop. Whatever the fuel and whether the file is run as a script or
  imported, running the module stops in the first round of the loop with
  \<^verbatim>\<open>NameError\<close> for \<^verbatim>\<open>X_train\<close>: nothing is trained, evaluated or reported.
\<close>

theorem training_loop_raises_name_error:
  "run_module fuel script = Raised (NameError ''X_train'')
   \<and> training_loop \<in> set module
   \<and> set [''X_train'', ''y_train'', ''X_test'', ''y_test'', ''scaler'', ''stock_ticker'',
            ''news_headline''] \<subseteq> set (reads training_loop)
   \<and> set [''X_train'', ''y_train'', ''X_test'', ''y_test'', ''scaler'']
         \<subseteq> set (local_names main_def)
   \<and> set [''X_train'', ''y_train'', ''X_test'', ''y_test'', ''scaler'']
         \<inter> set (concat (map stores module)) = {}
   \<and> set [''stock_ticker'', ''news_headline'']
         \<subseteq> set (local_names main_def) \<inter> set (stores main_guard)"
proof (intro conjI)
  show "run_module fuel script = Raised (NameError ''X_train'')"
    by (simp add: run_module_def module_def main_def_def models_assignment_def training_loop_def
          main_guard_def scope_simps)
  show "training_loop \<in> set module" by (simp add: module_def)
  show "set [''X_train'', ''y_train'', ''X_test'', ''y_test'', ''scaler'', ''stock_ticker'',
            ''news_headline''] \<subseteq> set (reads training_loop)"
    by (simp add: training_loop_def)
  show "set [''X_train'', ''y_train'', ''X_test'', ''y_test'', ''scaler'']
          \<subseteq> set (local_names main_def)"
    by (simp add: main_def_def)
  show "set [''X_train'', ''y_train'', ''X_test'', ''y_test'', ''scaler'']
         \<inter> set (concat (map stores module)) = {}"
    by (simp add: module_def main_def_def models_assignment_def training_loop_def main_guard_def)
  show "set [''stock_ticker'', ''news_headline'']
         \<subseteq> set (local_names main_def) \<inter> set (stores main_guard)"
    by (simp add: main_def_def main_guard_def)
qed

theorem training_loop_raises_name_error_witness:
  "run_module 3 True = Raised (NameError ''X_train'')
   \<and> run_module 3 False = Raised (NameError ''X_train'')"
  using training_loop_raises_name_error [of 3 True] training_loop_raises_name_error [of 3 False]
  by simp

text \<open>The claim as it is worded fails for \<^verbatim>\<open>stock_ticker\<close>: the loop reads it, and line 128,
  a statement of the module, binds it.\<close>

theorem stock_ticker_bound_at_module_level:
  "''stock_ticker'' \<in> set (reads training_loop)
   \<and> ''stock_ticker'' \<in> set (stores main_guard)
   \<and> main_guard \<in> set module"
  by (simp add: training_loop_def main_guard_def module_def)

section \<open>Facts about the scaler\<close>

lemma all_ok_map_Inr [simp]: "all_ok (map (\<lambda>x. Inr (f x)) xs) = Inr (map f xs)"
  by (induction xs) (simp_all add: and_then_def)

lemma check_array_finite:
  "X \<noteq> [] \<Longrightarrow> check_array (map (map Fin) X) = Inr X"
proof -
  assume ne: "X \<noteq> []"
  have row: "all_ok (map finite_entry (map Fin r)) = Inr r" for r :: "real list"
    using all_ok_map_Inr [of "\<lambda>x. x" r] by (simp add: comp_def)
  have "all_ok (map (\<lambda>r. all_ok (map finite_entry r)) (map (map Fin) X)) = Inr X"
    using all_ok_map_Inr [of "\<lambda>r. r" X] by (simp add: comp_def row)
  then show ?thesis using ne by (simp add: check_array_def)
qed

lemma fit_rectangular:
  assumes "X \<noteq> []" "\<forall>r\<in>set X. length r = n"
  shows "fit X = Inr (fitted X n)"
proof -
  have "hd X \<in> set X" using assms(1) by simp
  then have "length (hd X) = n" using assms(2) by blast
  then show ?thesis using assms by (simp add: fit_def)
qed


lemma transform_rectangular:
  assumes "X \<noteq> []" "\<forall>r\<in>set X. length r = length (scale_factor s)"
  shows "transform s X = Inr (map (scaled_row s) X)"
proof -
  have "map (transform_row s) X = map (\<lambda>r. Inr (scaled_row s r)) X"
    using assms(2) by (intro map_cong refl) (simp add: transform_row_def)
  then have "all_ok (map (transform_row s) X) = all_ok (map (\<lambda>r. Inr (scaled_row s r)) X)"
    by (rule arg_cong)
  then show ?thesis using assms(1) by (simp add: transform_def)
qed



lemma fit_transform_rectangular:
  assumes "X \<noteq> []" "\<forall>r\<in>set X. length r = n"
  shows "fit_transform (map (map Fin) X) = Inr (fitted X n, map (scaled_row (fitted X n)) X)"
proof -
  have "transform (fitted X n) X = Inr (map (scaled_row (fitted X n)) X)"
    using assms by (intro transform_rectangular) (simp_all add: fitted_def Let_def)
  then show ?thesis
    using assms(1) fit_rectangular [OF assms]
    by (simp add: fit_transform_def check_array_finite and_then_def)
qed




section \<open>The range of the scaled features\<close>



lemma sample_matrix_shape:
  "sample_matrix \<noteq> []" "\<forall>r\<in>set sample_matrix. length r = 7" "length sample_matrix = 3"
  by (simp_all add: sample_matrix_def)

lemma sample_fit_transform:
  "fit_transform (rows sample_features)
     = Inr (\<lparr>data_min = [0, 10, 50, 12, 8, 1, 1], data_max = [0, 30, 70, 32, 28, 3, 3],
              scale_factor = [1, 1 / 20, 1 / 20, 1 / 20, 1 / 20, 1 / 2, 1 / 2],
              offset = [0, - (1 / 2), - (5 / 2), - (3 / 5), - (2 / 5), - (1 / 2), - (1 / 2)]\<rparr>,
            [[0, 0, 0, 0, 0, 0, 0],
             [0, 1 / 2, 1 / 2, 1 / 2, 1 / 2, 1 / 2, 1],
             [0, 1, 1, 1, 1, 1, 1 / 2]])"
proof -
  have f: "fitted sample_matrix 7
     = \<lparr>data_min = [0, 10, 50, 12, 8, 1, 1], data_max = [0, 30, 70, 32, 28, 3, 3],
        scale_factor = [1, 1 / 20, 1 / 20, 1 / 20, 1 / 20, 1 / 2, 1 / 2],
        offset = [0, - (1 / 2), - (5 / 2), - (3 / 5), - (2 / 5), - (1 / 2), - (1 / 2)]\<rparr>"
    by (simp add: fitted_def sample_matrix_def handle_zeros_in_scale_def upt_rec)
  show ?thesis
    unfolding sample_features_def
    using fit_transform_rectangular [OF sample_matrix_shape(1,2)]
    by (simp add: f) (simp add: sample_matrix_def scaled_row_def)
qed



section \<open>Facts about the lines after the feature table\<close>

lemma all_ok_InrD:
  "all_ok ms = Inr xs \<Longrightarrow> length xs = length ms \<and> (\<forall>k<length ms. ms ! k = Inr (xs ! k))"
proof (induction ms arbitrary: xs)
  case Nil
  then show ?case by simp
next
  case (Cons m ms)
  then obtain x rest where m: "m = Inr x" and rest: "all_ok ms = Inr rest" and xs: "xs = x # rest"
    by (auto simp: and_then_def split: sum.splits)
  from Cons.IH [OF rest] show ?case
    using m xs by (auto simp: nth_Cons split: nat.splits)
qed

lemma transform_InrD:
  assumes "transform s A = Inr B"
  shows "B = map (scaled_row s) A"
proof -
  from assms have ok: "all_ok (map (transform_row s) A) = Inr B"
    by (simp add: transform_def split: if_splits)
  from all_ok_InrD [OF ok] have len: "length B = length A"
    and each: "\<forall>k<length A. transform_row s (A ! k) = Inr (B ! k)" by simp_all
  show ?thesis
  proof (rule nth_equalityI)
    show "length B = length (map (scaled_row s) A)" using len by simp
  next
    fix k assume "k < length B"
    then have k: "k < length A" using len by simp
    with each have "transform_row s (A ! k) = Inr (B ! k)" by blast
    then have "B ! k = scaled_row s (A ! k)"
      by (simp add: transform_row_def split: if_splits)
    then show "B ! k = map (scaled_row s) A ! k" using k by simp
  qed
qed

lemma take_rows_map:
  "\<forall>k\<in>set idx. k < length A \<Longrightarrow> take_rows (map f A) idx = map f (take_rows A idx)"
  by (simp add: take_rows_def)

lemma scale_and_split_InrD:
  assumes "scale_and_split X0 y split = Inr L"
  obtains A where "check_array (rows X0) = Inr A" "fit A = Inr (the_scaler L)"
    "X_train L = \<lparr>columns = columns X0, rows = take_rows (map (scaled_row (the_scaler L)) A) (fst split)\<rparr>"
    "X_test L = \<lparr>columns = columns X0, rows = take_rows (map (scaled_row (the_scaler L)) A) (snd split)\<rparr>"
    "y_train L = take_rows y (fst split)" "y_test L = take_rows y (snd split)"
proof -
  from assms obtain s B where ft: "fit_transform (rows X0) = Inr (s, B)"
    and L: "L = \<lparr>the_scaler = s,
               X_train = \<lparr>columns = columns X0, rows = take_rows B (fst split)\<rparr>,
               X_test = \<lparr>columns = columns X0, rows = take_rows B (snd split)\<rparr>,
               y_train = take_rows y (fst split), y_test = take_rows y (snd split)\<rparr>"
    by (auto simp: scale_and_split_def and_then_def Let_def split: sum.splits)
  from ft obtain A where A: "check_array (rows X0) = Inr A" and f: "fit A = Inr s"
    and t: "transform s A = Inr B"
    by (auto simp: fit_transform_def and_then_def split: sum.splits)
  from transform_InrD [OF t] have "B = map (scaled_row s) A" .
  with A f L that show thesis by simp
qed

lemma feature_positions:
  "position ''Sentiment'' feature_names = Some 0" "position ''SMA'' feature_names = Some 1"
  "position ''RSI'' feature_names = Some 2" "position ''BB_Upper'' feature_names = Some 3"
  "position ''BB_Lower'' feature_names = Some 4" "position ''MACD'' feature_names = Some 5"
  "position ''Signal_Line'' feature_names = Some 6"
  by (simp_all add: feature_names_def)

lemma latest_values:
  assumes "columns T = feature_names"
  shows "all_ok (map (\<lambda>c. and_then (column T c) iloc_last)
                 [''SMA'', ''RSI'', ''BB_Upper'', ''BB_Lower'', ''MACD'', ''Signal_Line''])
           = (if rows T = [] then Inl IndexError else Inr (latest_of T))"
  using assms
  by (simp add: column_def feature_positions iloc_last_def and_then_def latest_of_def)

lemma loop_body_unfold:
  assumes "columns (X_test L) = feature_names"
  shows "loop_body L polarity headline search =
     (if rows (X_test L) = [] then Inl IndexError
      else and_then (transform (the_scaler L) [polarity headline # latest_of (X_test L)])
             (\<lambda>scaled.
                Inr \<lparr>accuracy = accuracy_score (y_test L)
                                   (map (search (rows (X_train L)) (y_train L)) (rows (X_test L))),
                      input_vector = polarity headline # latest_of (X_test L),
                      scaled_input = scaled,
                      prediction = map (search (rows (X_train L)) (y_train L)) scaled,
                      movement = (if hd (map (search (rows (X_train L)) (y_train L)) scaled) > 0
                                  then ''up'' else ''down'')\<rparr>))"
  by (simp only: loop_body_def train_and_evaluate_model_def Let_def latest_values [OF assms]
        prod.case)
     (simp add: and_then_def)


lemma check_array_length:
  "check_array X = Inr A \<Longrightarrow> length A = length X"
  using all_ok_InrD [of "map (\<lambda>r. all_ok (map finite_entry r)) X" A]
  by (simp add: check_array_def split: if_splits)

lemma valid_split_in_range:
  assumes "valid_split n split"
  shows "\<forall>k\<in>set (fst split). k < n" "\<forall>k\<in>set (snd split). k < n"
proof -
  from assms have "set (fst split @ snd split) = {0..<n}" by (simp add: valid_split_def)
  then have "set (fst split) \<subseteq> {0..<n}" "set (snd split) \<subseteq> {0..<n}" by auto
  then show "\<forall>k\<in>set (fst split). k < n" "\<forall>k\<in>set (snd split). k < n" by auto
qed

lemma loop_body_scaled_once:
  assumes "columns (X_test L) = feature_names"
    and "loop_body L polarity headline search = Inr rep"
  shows "scaled_input rep = [scaled_row (the_scaler L) (input_vector rep)]"
    and "input_vector rep = polarity headline # latest_of (X_test L)"
    and "rows (X_test L) \<noteq> []"
proof -
  from assms(2) have ne: "rows (X_test L) \<noteq> []"
    by (auto simp: loop_body_unfold [OF assms(1)] split: if_splits)
  with assms(2) obtain scaled
    where t: "transform (the_scaler L) [polarity headline # latest_of (X_test L)] = Inr scaled"
      and rep: "input_vector rep = polarity headline # latest_of (X_test L)"
               "scaled_input rep = scaled"
    by (auto simp: loop_body_unfold [OF assms(1)] and_then_def split: sum.splits)
  from transform_InrD [OF t] rep
  show "scaled_input rep = [scaled_row (the_scaler L) (input_vector rep)]" by simp
  show "input_vector rep = polarity headline # latest_of (X_test L)" by (rule rep(1))
  show "rows (X_test L) \<noteq> []" by (rule ne)
qed

section \<open>What the scaler is fitted on\<close>

text \<open>
  Claim C3, as the code has it. Lines 90 to 98 fit the scaler once, on the whole feature
  table \<open>A\<close>, before the table is split; the training rows and the test rows that \<^verbatim>\<open>main\<close>
  keeps are rows of \<open>A\<close> scaled with that one scaler, and the loop body gives its single
  input vector to the same scaler, once.
\<close>

theorem scaler_fit_on_whole_table:
  assumes "scale_and_split X0 y split = Inr L"
    and "valid_split (length (rows X0)) split"
    and "columns X0 = feature_names"
  shows "\<exists>A. check_array (rows X0) = Inr A
           \<and> fit A = Inr (the_scaler L)
           \<and> rows (X_train L) = map (scaled_row (the_scaler L)) (take_rows A (fst split))
           \<and> rows (X_test L) = map (scaled_row (the_scaler L)) (take_rows A (snd split))
           \<and> (\<forall>polarity headline search rep.
                 loop_body L polarity headline search = Inr rep \<longrightarrow>
                 scaled_input rep = [scaled_row (the_scaler L) (input_vector rep)])"
proof -
  from assms(1) obtain A where A: "check_array (rows X0) = Inr A"
    and f: "fit A = Inr (the_scaler L)"
    and tr: "X_train L = \<lparr>columns = columns X0,
                           rows = take_rows (map (scaled_row (the_scaler L)) A) (fst split)\<rparr>"
    and te: "X_test L = \<lparr>columns = columns X0,
                          rows = take_rows (map (scaled_row (the_scaler L)) A) (snd split)\<rparr>"
    by (rule scale_and_split_InrD)
  have len: "length A = length (rows X0)" using A by (rule check_array_length)
  have r1: "rows (X_train L) = map (scaled_row (the_scaler L)) (take_rows A (fst split))"
    using valid_split_in_range(1) [OF assms(2)] len by (simp add: tr take_rows_map)
  have r2: "rows (X_test L) = map (scaled_row (the_scaler L)) (take_rows A (snd split))"
    using valid_split_in_range(2) [OF assms(2)] len by (simp add: te take_rows_map)
  have cols: "columns (X_test L) = feature_names" using te assms(3) by simp
  have once: "\<forall>polarity headline search rep.
                 loop_body L polarity headline search = Inr rep \<longrightarrow>
                 scaled_input rep = [scaled_row (the_scaler L) (input_vector rep)]"
    using loop_body_scaled_once(1) [OF cols] by blast
  show ?thesis
    by (rule exI [of _ A]) (intro conjI A f r1 r2 once)
qed

lemma sample_scale_and_split:
  "scale_and_split sample_features [1, - 1, 1] ([0, 2], [1]) = Inr sample_locals"
  by (simp add: scale_and_split_def sample_fit_transform and_then_def take_rows_def
        sample_locals_def) (simp add: sample_features_def)



lemma sample_split_valid: "valid_split (length (rows sample_features)) ([0, 2], [1])"
  by (auto simp: valid_split_def sample_features_def sample_matrix_def)

lemma sample_columns: "columns sample_features = feature_names"
  by (simp add: sample_features_def)

theorem scaler_fit_on_whole_table_witness:
  "\<exists>A. check_array (rows sample_features) = Inr A
       \<and> fit A = Inr (the_scaler sample_locals)
       \<and> rows (X_test sample_locals)
           = map (scaled_row (the_scaler sample_locals)) (take_rows A [1])"
  using scaler_fit_on_whole_table [OF sample_scale_and_split sample_split_valid sample_columns]
  by auto

text \<open>The claim as it is worded fails: with rows 0 and 1 of the example table for training
  and row 2 for testing, the scaler that \<^verbatim>\<open>main\<close> keeps has the column maxima of all three
  rows, those of the test row, and not the maxima of the training rows.\<close>

theorem scaler_fit_includes_test_rows:
  "map_sum id (data_max \<circ> the_scaler)
       (scale_and_split sample_features [1, - 1, 1] ([0, 1], [2]))
     = Inr [0, 30, 70, 32, 28, 3, 3]
   \<and> map_sum id data_max (fit (take_rows sample_matrix [0, 1]))
     = Inr [0, 20, 60, 22, 18, 2, 3]"
proof
  show "map_sum id (data_max \<circ> the_scaler)
       (scale_and_split sample_features [1, - 1, 1] ([0, 1], [2]))
     = Inr [0, 30, 70, 32, 28, 3, 3]"
    by (simp add: scale_and_split_def sample_fit_transform and_then_def)
  show "map_sum id data_max (fit (take_rows sample_matrix [0, 1]))
     = Inr [0, 20, 60, 22, 18, 2, 3]"
    by (simp add: fit_def fitted_def take_rows_def sample_matrix_def upt_rec)
qed

section \<open>The order of the features\<close>




section \<open>The input of the prediction\<close>


section \<open>When \<^verbatim>\<open>main\<close> reaches its last line\<close>

text \<open>A row that \<^verbatim>\<open>dropna\<close> keeps has finite features: the RSI is never an infinity. So
  the only error of lines 71 to 98 in this embedding is the \<^verbatim>\<open>ValueError\<close> of the scaler
  on a table with no row, and the case of \<open>check_array\<close> for an entry that is not finite is
  never taken.\<close>

lemma extend_fields [simp]:
  "SMA (derived_row.extend r x) = SMA r" "RSI (derived_row.extend r x) = RSI r"
  "BB_Upper (derived_row.extend r x) = BB_Upper r" "BB_Lower (derived_row.extend r x) = BB_Lower r"
  "Returns (derived_row.extend r x) = Returns r" "MACD (derived_row.extend r x) = MACD r"
  "Signal_Line (derived_row.extend r x) = Signal_Line r"
  "Direction (derived_row.extend r x) = Direction r" "Date (derived_row.extend r x) = Date r"
  by (simp_all add: derived_row.defs price_bar.defs)

lemma has_na_extend [simp]: "has_na (derived_row.extend r x) = has_na r"
  by (simp add: has_na_def)

lemma merged_rows:
  assumes "m \<in> set (merge_on_date stock news)"
  obtains r h where "r \<in> set stock" "m = derived_row.extend r (merged_row.fields h)"
  using assms by (auto simp: merge_on_date_def)

lemma merge_own_dates_nonempty:
  assumes "stock \<noteq> []"
  shows "merge_on_date stock (map (\<lambda>r. (Date r, h)) stock) \<noteq> []"
proof -
  obtain r rest where s: "stock = r # rest" using assms by (cases stock) auto
  show ?thesis by (simp add: merge_on_date_def s)
qed


lemma rsi_never_infinite:
  assumes "i < length data"
  shows "rsi data 14 ! i = NaN \<or> (\<exists>x. rsi data 14 ! i = Fin x)"
proof (cases "i < 13")
  case True
  then show ?thesis using assms by (simp add: rsi_nth averages_missing fsub_def)
next
  case False
  then have "13 \<le> i" by simp
  from averages_defined [OF assms this] obtain g l
    where "avg_gain data 14 ! i = Some g" "avg_loss data 14 ! i = Some l" "0 \<le> g" "0 \<le> l"
    by blast
  then show ?thesis using assms rsi_of_averages [of g l] by (simp add: rsi_nth)
qed

lemma preprocessed_row_finite:
  assumes "r \<in> set (preprocess_data d)"
  shows "\<exists>a b c e. SMA r = Some a \<and> RSI r = Fin b \<and> BB_Upper r = Some c \<and> BB_Lower r = Some e"
proof -
  from assms obtain i where i: "i < length d" and r: "r = add_columns d ! i"
    and na: "\<not> has_na r" by (rule preprocessed_row_index)
  have "RSI r = rsi d 14 ! i" unfolding r using i by (simp only: add_columns_nth derived_row.simps)
  with rsi_never_infinite [OF i] have "RSI r = NaN \<or> (\<exists>x. RSI r = Fin x)" by simp
  with na show ?thesis by (auto simp: has_na_def)
qed

lemma feature_rows_finite:
  assumes "\<And>m. m \<in> set merged \<Longrightarrow>
             \<exists>a b c e. SMA m = Some a \<and> RSI m = Fin b \<and> BB_Upper m = Some c \<and> BB_Lower m = Some e"
  shows "\<exists>A. rows (prepare_features merged p) = map (map Fin) A
             \<and> length A = length merged \<and> (\<forall>a\<in>set A. length a = 7)"
  using assms
proof (induction merged)
  case Nil
  show ?case by (simp add: prepare_features_def)
next
  case (Cons m merged)
  from Cons.prems [of m] obtain a b c e
    where m: "SMA m = Some a" "RSI m = Fin b" "BB_Upper m = Some c" "BB_Lower m = Some e"
    by auto
  from Cons.IH Cons.prems obtain A
    where A: "rows (prepare_features merged p) = map (map Fin) A" "length A = length merged"
             "\<forall>a\<in>set A. length a = 7"
    by auto
  show ?case
    by (rule exI [of _ "[p (Headline m), a, b, c, e, MACD m, Signal_Line m] # A"])
       (use A m in \<open>simp add: prepare_features_def\<close>)
qed

lemma main_returns:
  "main d p split = Inl ValueError \<and> preprocess_data d = []
   \<or> (\<exists>L. main d p split = Inr L) \<and> preprocess_data d \<noteq> []"
proof (cases "preprocess_data d = []")
  case True
  then show ?thesis
    by (simp add: main_def Let_def merge_on_date_def dropna_def prepare_features_def
          scale_and_split_def fit_transform_def check_array_def and_then_def)
next
  case False
  define stock where "stock = preprocess_data d"
  define merged where
    "merged = dropna (merge_on_date stock (map (\<lambda>r. (Date r, ''Sample headline'')) stock))"
  have keep: "\<not> has_na m" if "m \<in> set (merge_on_date stock news)" for m news
  proof -
    from that obtain r h where "r \<in> set stock" "m = derived_row.extend r (merged_row.fields h)"
      by (rule merged_rows)
    then show ?thesis by (simp add: stock_def preprocess_data_def dropna_def)
  qed
  then have same: "merged = merge_on_date stock (map (\<lambda>r. (Date r, ''Sample headline'')) stock)"
    unfolding merged_def dropna_def by (simp add: filter_id_conv)
  have ne: "merged \<noteq> []"
    unfolding same using False by (intro merge_own_dates_nonempty) (simp add: stock_def)
  have fin: "\<exists>a b c e. SMA m = Some a \<and> RSI m = Fin b \<and> BB_Upper m = Some c \<and> BB_Lower m = Some e"
    if "m \<in> set merged" for m
  proof -
    from that obtain r h where r: "r \<in> set stock" and m: "m = derived_row.extend r (merged_row.fields h)"
      unfolding same by (rule merged_rows)
    from preprocessed_row_finite [of r d] r show ?thesis by (simp add: m stock_def)
  qed
  from feature_rows_finite [of merged p, OF fin] obtain A
    where A: "rows (prepare_features merged p) = map (map Fin) A" "length A = length merged"
      "\<forall>a\<in>set A. length a = 7" by blast
  have "A \<noteq> []" using A(2) ne by auto
  from fit_transform_rectangular [OF this A(3)]
  have "\<exists>L. scale_and_split (prepare_features merged p) (map Direction merged) split = Inr L"
    by (simp add: scale_and_split_def A(1) and_then_def Let_def)
  then show ?thesis
    using False by (simp add: main_def Let_def merged_def stock_def)
qed

end
